theory Spec2Isabelle
  imports Main
begin

section \<open>The scorekeeping console of scripts.js\<close>

text \<open>
  A shallow embedding of the match logic of \<^verbatim>\<open>ScorekeeperApp\<close> (scripts.js): the event log
  kept by \<^verbatim>\<open>DataManager\<close>, the counters and flags of the application object, and the
  handlers that change them. The page (DOM), the notifications and the two countdown
  clocks are outside the model (the stored state of the primary clock appears in the
  section on persistence only): every element looked up by id is taken to exist, the
  notification a handler raises is returned as a value where a property reads it
  (\<^verbatim>\<open>handleTimeout\<close>) and left out elsewhere, and where the code reads a clock
  (\<^verbatim>\<open>Date.now()\<close>, \<^verbatim>\<open>new Date()\<close>, the remaining time of the primary clock) the reading is a
  parameter. JavaScript numbers are modelled as integers: every count and duration of
  the application is produced by \<^verbatim>\<open>parseInt\<close>, \<^verbatim>\<open>++\<close>, \<^verbatim>\<open>+ 1\<close>, \<^verbatim>\<open>- 1\<close>, \<^verbatim>\<open>Math.min\<close> and
  \<^verbatim>\<open>Math.max\<close> from integers.
\<close>

subsection \<open>Data\<close>

text \<open>The two sides; \<^verbatim>\<open>'A'\<close> and \<^verbatim>\<open>'B'\<close> in the source, the empty string being \<open>None\<close>.\<close>

datatype team = TeamA | TeamB

text \<open>
  The \<^verbatim>\<open>Type\<close> of a log entry. The application writes exactly these five strings
  (\<^verbatim>\<open>createLogObject\<close> writes \<^verbatim>\<open>'score'\<close>, \<^verbatim>\<open>recordSpecialEvent\<close> is called with the other four).
\<close>

datatype logType = score | timeout | halftime | matchstart | stoppage

text \<open>
  A log entry, as \<^verbatim>\<open>createLogObject\<close> builds it. \<^verbatim>\<open>scoreID\<close> is \<^verbatim>\<open>Date.now().toString()\<close>:
  the decimal rendering of the millisecond reading, kept here as the number it renders
  (the rendering is injective). \<^verbatim>\<open>HalftimeReason\<close> is present on halftime entries only.
\<close>

record logEntry =
  scoreID :: nat
  GameID :: string
  Time :: string
  Team :: string
  TeamName :: string
  TeamLetter :: "team option"
  Score :: string
  Assist :: string
  Type :: logType
  Event :: string
  EventType :: string
  HalftimeReason :: "string option"

text \<open>
  What the environment answers when an entry is created: \<^verbatim>\<open>Date.now()\<close> and
  \<^verbatim>\<open>new Date().toLocaleString()\<close>.
\<close>

record wallClock =
  DateNow :: nat
  toLocaleString :: string

text \<open>\<^verbatim>\<open>this.gameSettings\<close>.\<close>

record settings =
  matchDuration :: int
  halftimeDuration :: int
  halftimeBreakDuration :: int
  timeoutDuration :: int
  timeoutsTotal :: int
  timeoutsPerHalf :: int

text \<open>\<^verbatim>\<open>this.timeoutState\<close>: one pair of counters under each of the keys \<^verbatim>\<open>A\<close> and \<^verbatim>\<open>B\<close>.\<close>

record teamTimeouts =
  totalRemaining :: int
  halfRemaining :: int

record timeouts =
  tsA :: teamTimeouts
  tsB :: teamTimeouts

definition tsGet :: "timeouts \<Rightarrow> team \<Rightarrow> teamTimeouts" where
  "tsGet ts t = (case t of TeamA \<Rightarrow> tsA ts | TeamB \<Rightarrow> tsB ts)"

definition tsSet :: "timeouts \<Rightarrow> team \<Rightarrow> teamTimeouts \<Rightarrow> timeouts" where
  "tsSet ts t v = (case t of TeamA \<Rightarrow> ts\<lparr>tsA := v\<rparr> | TeamB \<Rightarrow> ts\<lparr>tsB := v\<rparr>)"

text \<open>
  The application object together with the log of its \<^verbatim>\<open>DataManager\<close> and the two team
  selectors of the page (\<^verbatim>\<open>teamA\<close>, \<^verbatim>\<open>teamB\<close>). \<^verbatim>\<open>popupTeam\<close> is \<^verbatim>\<open>scorePopup.dataset.team\<close>.
  The reasons (\<^verbatim>\<open>'manual'\<close>, \<^verbatim>\<open>'score'\<close>, \<^verbatim>\<open>'clock'\<close>, \<^verbatim>\<open>'restored'\<close>) are strings or null.
\<close>

record app =
  scoreLogs :: "logEntry list"
  teamAName :: string
  teamBName :: string
  popupTeam :: "team option"
  gameSettings :: settings
  timeoutState :: timeouts
  teamAScore :: nat
  teamBScore :: nat
  currentEditID :: "nat option"
  currentTimeoutEditID :: "nat option"
  currentHalftimeEditID :: "nat option"
  halftimeTriggered :: bool
  halftimeAutoSuppressed :: bool
  halftimePendingReason :: "string option"
  halftimeReasonResolved :: "string option"
  abbaStart :: string
  matchStarted :: bool
  gameStoppageActive :: bool
  hardCapReached :: bool

text \<open>Truthiness of a string that may be null: null and the empty string are falsy.\<close>

definition truthy :: "string option \<Rightarrow> bool" where
  "truthy v = (case v of None \<Rightarrow> False | Some s \<Rightarrow> s \<noteq> [])"

text \<open>
  \<^verbatim>\<open>String.prototype.trim\<close>. A character of a string is here one of the 256 code units below
  U+0100; of these \<^verbatim>\<open>trim\<close> strips the space, the tab, the line feed, the vertical tab,
  the form feed, the carriage return and the no-break space (U+00A0). The whitespace
  above U+00FF that \<^verbatim>\<open>trim\<close> strips as well (U+FEFF, U+2028 and others) cannot occur in a
  string of the model. The code uses \<^verbatim>\<open>trim\<close> on the team names only, to test whether a name
  is blank.
\<close>

definition isSpace :: "char \<Rightarrow> bool" where
  "isSpace c =
     (c \<in> set [CHR '' '', CHR 0x09, CHR 0x0A, CHR 0x0B, CHR 0x0C, CHR 0x0D, CHR 0xA0])"

definition trim :: "string \<Rightarrow> string" where
  "trim s = rev (dropWhile isSpace (rev (dropWhile isSpace s)))"

text \<open>The state the constructor of \<^verbatim>\<open>ScorekeeperApp\<close> builds when nothing is stored.\<close>

definition defaultSettings :: settings where
  "defaultSettings =
     \<lparr> matchDuration = 100, halftimeDuration = 55, halftimeBreakDuration = 7,
       timeoutDuration = 75, timeoutsTotal = 2, timeoutsPerHalf = 0 \<rparr>"

definition initialApp :: app where
  "initialApp =
     \<lparr> scoreLogs = [], teamAName = [], teamBName = [], popupTeam = None,
       gameSettings = defaultSettings,
       timeoutState =
         \<lparr> tsA = \<lparr> totalRemaining = timeoutsTotal defaultSettings,
                    halfRemaining = (if timeoutsPerHalf defaultSettings \<noteq> 0
                                     then timeoutsPerHalf defaultSettings
                                     else timeoutsTotal defaultSettings) \<rparr>,
           tsB = \<lparr> totalRemaining = timeoutsTotal defaultSettings,
                    halfRemaining = (if timeoutsPerHalf defaultSettings \<noteq> 0
                                     then timeoutsPerHalf defaultSettings
                                     else timeoutsTotal defaultSettings) \<rparr> \<rparr>,
       teamAScore = 0, teamBScore = 0,
       currentEditID = None, currentTimeoutEditID = None, currentHalftimeEditID = None,
       halftimeTriggered = False, halftimeAutoSuppressed = False,
       halftimePendingReason = None, halftimeReasonResolved = None,
       abbaStart = ''M'', matchStarted = False, gameStoppageActive = False,
       hardCapReached = False \<rparr>"

subsection \<open>The log of the data manager\<close>

text \<open>\<^verbatim>\<open>getScoreLog\<close>: the first entry with the id, or undefined.\<close>

definition getScoreLog :: "logEntry list \<Rightarrow> nat \<Rightarrow> logEntry option" where
  "getScoreLog logs i = find (\<lambda>l. scoreID l = i) logs"

text \<open>
  \<^verbatim>\<open>updateScoreLog\<close>: \<^verbatim>\<open>Object.assign\<close> on the first entry with the id; \<open>None\<close> is the
  result \<^verbatim>\<open>false\<close>.
\<close>

fun updateScoreLog :: "logEntry list \<Rightarrow> nat \<Rightarrow> (logEntry \<Rightarrow> logEntry) \<Rightarrow> logEntry list option" where
  "updateScoreLog [] i f = None"
| "updateScoreLog (l # ls) i f =
     (if scoreID l = i then Some (f l # ls)
      else (case updateScoreLog ls i f of None \<Rightarrow> None | Some ls' \<Rightarrow> Some (l # ls')))"

text \<open>
  \<^verbatim>\<open>removeScoreLog\<close>: splices the first entry with the id out and returns it with the
  remaining log; \<open>None\<close> is the result \<^verbatim>\<open>null\<close>.
\<close>

fun removeScoreLog :: "logEntry list \<Rightarrow> nat \<Rightarrow> (logEntry \<times> logEntry list) option" where
  "removeScoreLog [] i = None"
| "removeScoreLog (l # ls) i =
     (if scoreID l = i then Some (l, ls)
      else (case removeScoreLog ls i of None \<Rightarrow> None | Some (r, ls') \<Rightarrow> Some (r, l # ls')))"

subsection \<open>Building entries\<close>

text \<open>\<^verbatim>\<open>getEventTypeLabel\<close>; \<^verbatim>\<open>'score'\<close> falls to the default branch.\<close>

fun getEventTypeLabel :: "logType \<Rightarrow> string" where
  "getEventTypeLabel matchstart = ''Start''"
| "getEventTypeLabel timeout = ''TimeOut''"
| "getEventTypeLabel stoppage = ''Stoppage''"
| "getEventTypeLabel halftime = ''HalfTime''"
| "getEventTypeLabel score = ''Score''"

text \<open>
  The \<^verbatim>\<open>overrides\<close> object of \<^verbatim>\<open>createLogObject\<close>: each key is present (\<open>Some\<close>) or absent.
\<close>

record overrides =
  oType :: "logType option"
  oEvent :: "string option"
  oScore :: "string option"
  oAssist :: "string option"
  oEventType :: "string option"
  oHalftimeReason :: "string option"
  oTeam :: "string option"
  oTeamName :: "string option"
  oTeamLetter :: "team option option"

definition noOverrides :: overrides where
  "noOverrides =
     \<lparr> oType = None, oEvent = None, oScore = None, oAssist = None, oEventType = None,
       oHalftimeReason = None, oTeam = None, oTeamName = None, oTeamLetter = None \<rparr>"

definition orElse :: "'a option \<Rightarrow> 'a \<Rightarrow> 'a" where
  "orElse v d = (case v of None \<Rightarrow> d | Some x \<Rightarrow> x)"

definition createLogObject ::
  "app \<Rightarrow> wallClock \<Rightarrow> nat \<Rightarrow> team option \<Rightarrow> string \<Rightarrow> string \<Rightarrow> overrides \<Rightarrow> logEntry" where
  "createLogObject st clk sid teamLetter scorer assist ov =
     (let gameID = teamAName st @ '' vs '' @ teamBName st;
          teamName = (case teamLetter of Some TeamA \<Rightarrow> teamAName st
                      | Some TeamB \<Rightarrow> teamBName st | None \<Rightarrow> []);
          mergedType = orElse (oType ov) score
      in \<lparr> scoreID = sid,
           GameID = gameID,
           Time = toLocaleString clk,
           Team = orElse (oTeam ov) teamName,
           TeamName = orElse (oTeamName ov) teamName,
           TeamLetter = orElse (oTeamLetter ov) teamLetter,
           Score = orElse (oScore ov) scorer,
           Assist = orElse (oAssist ov) assist,
           Type = mergedType,
           Event = orElse (oEvent ov) [],
           EventType = orElse (oEventType ov) (getEventTypeLabel mergedType),
           HalftimeReason = oHalftimeReason ov \<rparr>)"

text \<open>
  \<^verbatim>\<open>recordSpecialEvent(type, teamLetter, extra)\<close>. The only \<^verbatim>\<open>extra\<close> the code passes is
  \<^verbatim>\<open>{ HalftimeReason }\<close>, so \<^verbatim>\<open>extra\<close> is that reason or nothing. The default branch of the
  label switch upper-cases the type. Returns the entry and the new state.
\<close>

definition recordSpecialEvent ::
  "app \<Rightarrow> wallClock \<Rightarrow> logType \<Rightarrow> team option \<Rightarrow> string option \<Rightarrow> logEntry \<times> app" where
  "recordSpecialEvent st clk ty teamLetter extra =
     (let displayLabel = (case ty of timeout \<Rightarrow> ''Time out'' | halftime \<Rightarrow> ''HT''
                          | matchstart \<Rightarrow> ''MatchStart'' | stoppage \<Rightarrow> ''STOP''
                          | score \<Rightarrow> ''SCORE'');
          sid = DateNow clk;
          ov = \<lparr> oType = Some ty, oEvent = Some displayLabel, oScore = Some [],
                 oAssist = Some [], oEventType = Some (getEventTypeLabel ty),
                 oHalftimeReason = extra,
                 oTeam = (if teamLetter = None then Some [] else None),
                 oTeamName = (if teamLetter = None then Some [] else None),
                 oTeamLetter = (if teamLetter = None then Some None else None) \<rparr>;
          logEntry = createLogObject st clk sid teamLetter [] [] ov
      in (logEntry, st\<lparr>scoreLogs := scoreLogs st @ [logEntry]\<rparr>))"

subsection \<open>Reading entries\<close>

text \<open>
  \<^verbatim>\<open>getLogType\<close> and \<^verbatim>\<open>isScoreLog\<close>. On the five types the application writes, trimming and
  lower-casing change nothing, and the type is never blank.
\<close>

definition getLogType :: "logEntry \<Rightarrow> logType" where
  "getLogType logEntry = Type logEntry"

definition isScoreLog :: "logEntry \<Rightarrow> bool" where
  "isScoreLog logEntry = (getLogType logEntry = score)"

text \<open>
  \<^verbatim>\<open>getTeamLetterFromLog\<close>: the stored letter, and for an entry without one the side whose
  selector shows the entry's team name (\<^verbatim>\<open>TeamName || Team\<close>).
\<close>

definition getTeamLetterFromLog :: "app \<Rightarrow> logEntry \<Rightarrow> team option" where
  "getTeamLetterFromLog st logEntry =
     (case TeamLetter logEntry of
        Some t \<Rightarrow> Some t
      | None \<Rightarrow>
          let candidate = (if TeamName logEntry \<noteq> [] then TeamName logEntry else Team logEntry)
          in if candidate = teamAName st then Some TeamA
             else if candidate = teamBName st then Some TeamB
             else None)"

subsection \<open>Score cap and halftime\<close>

text \<open>\<^verbatim>\<open>checkForScoreCap\<close>; stopping the two clocks is outside the model.\<close>

definition checkForScoreCap :: "app \<Rightarrow> app" where
  "checkForScoreCap st =
     (let reached = (teamAScore st \<ge> 15 \<or> teamBScore st \<ge> 15)
      in if reached \<and> \<not> hardCapReached st then st\<lparr>hardCapReached := True\<rparr>
         else if \<not> reached \<and> hardCapReached st then st\<lparr>hardCapReached := False\<rparr>
         else st)"

definition usesPerHalfTimeouts :: "app \<Rightarrow> bool" where
  "usesPerHalfTimeouts st = (timeoutsPerHalf (gameSettings st) > 0)"

text \<open>\<^verbatim>\<open>updateHalftimeTracking\<close>: the flags follow the last halftime entry of the log.\<close>

definition updateHalftimeTracking :: "app \<Rightarrow> app" where
  "updateHalftimeTracking st =
     (let halftimeLogs = filter (\<lambda>l. Type l = halftime) (scoreLogs st);
          latest = (if halftimeLogs = [] then None else Some (last halftimeLogs));
          st1 = st\<lparr>halftimeTriggered := (latest \<noteq> None),
                    currentHalftimeEditID := map_option scoreID latest\<rparr>;
          st2 = (if halftimeTriggered st1 then st1\<lparr>halftimePendingReason := None\<rparr> else st1)
      in case latest of
           None \<Rightarrow> st2\<lparr>halftimeReasonResolved := None\<rparr>
         | Some l \<Rightarrow>
             if \<not> truthy (halftimeReasonResolved st2)
             then st2\<lparr>halftimeReasonResolved :=
                        Some (if truthy (HalftimeReason l) then the (HalftimeReason l)
                              else ''restored'')\<rparr>
             else st2)"

text \<open>
  \<^verbatim>\<open>handleHalftime({ silent, reason })\<close>; the halftime button calls it with
  \<^verbatim>\<open>reason = 'manual'\<close>. The result \<^verbatim>\<open>true\<close>/\<^verbatim>\<open>false\<close> comes first. \<^verbatim>\<open>silent\<close> only decides whether
  notifications are shown, and resetting and starting the secondary clock is outside the
  model. \<open>halftimeReset\<close> is the new pair of counters of one side.
\<close>

definition halftimeReset :: "app \<Rightarrow> teamTimeouts \<Rightarrow> teamTimeouts" where
  "halftimeReset st ts =
     (if usesPerHalfTimeouts st
      then let defaultHalf = min (timeoutsPerHalf (gameSettings st)) (timeoutsTotal (gameSettings st))
           in ts\<lparr>halfRemaining := min defaultHalf (totalRemaining ts)\<rparr>
      else ts\<lparr>halfRemaining := totalRemaining ts\<rparr>)"

definition handleHalftime :: "app \<Rightarrow> wallClock \<Rightarrow> string \<Rightarrow> bool \<times> app" where
  "handleHalftime st clk reason =
     (if halftimeTriggered st then (False, st)
      else if \<not> matchStarted st then (False, st)
      else
        let st1 = st\<lparr>timeoutState :=
                      \<lparr> tsA = halftimeReset st (tsA (timeoutState st)),
                        tsB = halftimeReset st (tsB (timeoutState st)) \<rparr>\<rparr>;
            triggerReason = (if reason \<noteq> [] then reason else ''manual'');
            st2 = st1\<lparr>halftimeReasonResolved := Some triggerReason\<rparr>;
            (halftimeLog, st3) = recordSpecialEvent st2 clk halftime None (Some triggerReason);
            st4 = st3\<lparr>halftimeTriggered := True,
                      currentHalftimeEditID := Some (scoreID halftimeLog)\<rparr>;
            st5 = updateHalftimeTracking st4
        in (True, st5\<lparr>halftimePendingReason := None, halftimeAutoSuppressed := False\<rparr>))"

text \<open>\<^verbatim>\<open>CONFIG.HALFTIME_SCORE_TARGET\<close>.\<close>

definition HALFTIME_SCORE_TARGET :: nat where
  "HALFTIME_SCORE_TARGET = 8"

definition maybeTriggerHalftimeByScore :: "app \<Rightarrow> wallClock \<Rightarrow> app" where
  "maybeTriggerHalftimeByScore st clk =
     (if \<not> matchStarted st \<or> halftimeTriggered st then st
      else if truthy (halftimeReasonResolved st) then st
      else
        let leadingScore = max (teamAScore st) (teamBScore st);
            gate = (if halftimeAutoSuppressed st
                    then (if leadingScore < HALFTIME_SCORE_TARGET
                          then Some (st\<lparr>halftimeAutoSuppressed := False\<rparr>)
                          else None)
                    else Some st)
        in case gate of
             None \<Rightarrow> st
           | Some st1 \<Rightarrow>
               if leadingScore \<ge> HALFTIME_SCORE_TARGET
               then snd (handleHalftime st1 clk ''score'')
               else st1)"

text \<open>
  \<^verbatim>\<open>maybeTriggerHalftimeByTime(timeRemaining)\<close>. \<open>totalMs\<close> is the reading of the primary
  clock in milliseconds: \<^verbatim>\<open>timeRemaining.total\<close> on a tick, and
  \<^verbatim>\<open>getRemainingSeconds() * 1000\<close> when the function is called without an argument.
\<close>

definition maybeTriggerHalftimeByTime :: "app \<Rightarrow> int \<Rightarrow> app" where
  "maybeTriggerHalftimeByTime st totalMs =
     (if \<not> matchStarted st \<or> halftimeTriggered st then st
      else
        let thresholdMinutes =
              max 0 (matchDuration (gameSettings st) - halftimeDuration (gameSettings st))
        in if thresholdMinutes \<le> 0 then st
           else
             let thresholdMs = thresholdMinutes * 60 * 1000;
                 remainingMs = max 0 totalMs;
                 gate = (if halftimeAutoSuppressed st
                         then (if remainingMs > thresholdMs
                               then Some (st\<lparr>halftimeAutoSuppressed := False\<rparr>)
                               else None)
                         else Some st)
             in case gate of
                  None \<Rightarrow> st
                | Some st1 \<Rightarrow>
                    if remainingMs \<le> thresholdMs
                    then (if halftimePendingReason st1 \<noteq> Some ''clock''
                          then st1\<lparr>halftimePendingReason := Some ''clock''\<rparr>
                          else st1)
                    else st1)"

definition attemptPendingHalftime :: "app \<Rightarrow> wallClock \<Rightarrow> app" where
  "attemptPendingHalftime st clk =
     (if \<not> matchStarted st \<or> halftimeTriggered st then st
      else if truthy (halftimeReasonResolved st) then st
      else if halftimePendingReason st \<noteq> Some ''clock'' then st
      else
        let reason = halftimePendingReason st;
            (triggered, st1) = handleHalftime st clk (the reason)
        in if \<not> triggered then st1\<lparr>halftimePendingReason := reason\<rparr> else st1)"

definition handleMainTimerTick :: "app \<Rightarrow> int \<Rightarrow> app" where
  "handleMainTimerTick st totalMs = maybeTriggerHalftimeByTime st totalMs"

subsection \<open>Scores\<close>

text \<open>
  \<^verbatim>\<open>openPopup(team)\<close>, \<^verbatim>\<open>closePopup\<close> and \<^verbatim>\<open>editScore(scoreID)\<close>: the score popup, its team and
  the entry under edit.
\<close>

definition openPopup :: "app \<Rightarrow> team \<Rightarrow> app" where
  "openPopup st t =
     (if \<not> matchStarted st then st
      else if hardCapReached st then st
      else st\<lparr>currentEditID := None, popupTeam := Some t\<rparr>)"

definition closePopup :: "app \<Rightarrow> app" where
  "closePopup st = st\<lparr>currentEditID := None\<rparr>"

definition editScore :: "app \<Rightarrow> nat \<Rightarrow> app" where
  "editScore st sid =
     (case getScoreLog (scoreLogs st) sid of
        None \<Rightarrow> st
      | Some logToEdit \<Rightarrow>
          st\<lparr>currentEditID := Some sid,
             popupTeam := Some (if Team logToEdit = teamAName st then TeamA else TeamB)\<rparr>)"

text \<open>
  \<^verbatim>\<open>addNewScore(team, scorer, assist)\<close>. \<open>clk\<close> is what the clock answers to \<^verbatim>\<open>addNewScore\<close>
  itself, \<open>clkH\<close> what it answers to \<^verbatim>\<open>recordSpecialEvent\<close> should the point bring a
  halftime entry (at most one of the two halftime calls records one: the second returns
  at once when the first has declared halftime).
\<close>

definition addNewScore :: "app \<Rightarrow> wallClock \<Rightarrow> wallClock \<Rightarrow> team \<Rightarrow> string \<Rightarrow> string \<Rightarrow> app" where
  "addNewScore st clk clkH t scorer assist =
     (let st1 = (if t = TeamA then st\<lparr>teamAScore := teamAScore st + 1\<rparr>
                 else st\<lparr>teamBScore := teamBScore st + 1\<rparr>);
          newScoreID = DateNow clk;
          logEntry = createLogObject st1 clk newScoreID (Some t) scorer assist noOverrides;
          st2 = st1\<lparr>scoreLogs := scoreLogs st1 @ [logEntry]\<rparr>;
          st3 = checkForScoreCap st2;
          st4 = maybeTriggerHalftimeByScore st3 clkH;
          st5 = attemptPendingHalftime st4 clkH
      in closePopup st5)"

definition updateExistingScore :: "app \<Rightarrow> string \<Rightarrow> string \<Rightarrow> app" where
  "updateExistingScore st scorer assist =
     (case currentEditID st of
        None \<Rightarrow> st
      | Some sid \<Rightarrow>
          (case updateScoreLog (scoreLogs st) sid (\<lambda>l. l\<lparr>Score := scorer, Assist := assist\<rparr>) of
             None \<Rightarrow> st
           | Some logs \<Rightarrow> closePopup (st\<lparr>scoreLogs := logs\<rparr>)))"

definition handleSaveScore :: "app \<Rightarrow> wallClock \<Rightarrow> wallClock \<Rightarrow> string \<Rightarrow> string \<Rightarrow> app" where
  "handleSaveScore st clk clkH scorer assist =
     (case popupTeam st of
        None \<Rightarrow> st
      | Some t \<Rightarrow>
          if scorer = [] \<or> assist = [] then st
          else if currentEditID st = None then addNewScore st clk clkH t scorer assist
          else updateExistingScore st scorer assist)"

text \<open>
  The counting loop of \<^verbatim>\<open>rebuildTableAndCounters\<close> (and of \<^verbatim>\<open>rebuildScoreTable\<close>), one
  entry at a time, on the pair of counters.
\<close>

definition countLog :: "app \<Rightarrow> logEntry \<Rightarrow> nat \<times> nat \<Rightarrow> nat \<times> nat" where
  "countLog st logEntry c =
     (if isScoreLog logEntry
      then (case getTeamLetterFromLog st logEntry of
              Some TeamA \<Rightarrow> (fst c + 1, snd c)
            | Some TeamB \<Rightarrow> (fst c, snd c + 1)
            | None \<Rightarrow> c)
      else c)"

definition rebuildTableAndCounters :: "app \<Rightarrow> wallClock \<Rightarrow> app" where
  "rebuildTableAndCounters st clkH =
     (let c = fold (countLog st) (scoreLogs st) (0, 0);
          st1 = st\<lparr>teamAScore := fst c, teamBScore := snd c\<rparr>;
          st2 = checkForScoreCap st1;
          st3 = updateHalftimeTracking st2
      in maybeTriggerHalftimeByScore st3 clkH)"

definition handleDeleteScore :: "app \<Rightarrow> wallClock \<Rightarrow> app" where
  "handleDeleteScore st clkH =
     (case currentEditID st of
        None \<Rightarrow> st
      | Some sid \<Rightarrow>
          (case removeScoreLog (scoreLogs st) sid of
             None \<Rightarrow> st
           | Some (removed, logs) \<Rightarrow>
               closePopup (rebuildTableAndCounters (st\<lparr>scoreLogs := logs\<rparr>) clkH)))"

subsection \<open>Timeouts\<close>

text \<open>What a handler tells the operator (\<^verbatim>\<open>Utils.showNotification\<close>), where a claim reads it.\<close>

datatype notice =
    StartMatchFirst
  | ResolveStoppageFirst
  | NoTimeoutsRemaining
  | NoTimeoutsRemainingThisHalf
  | TimeoutRecorded

text \<open>
  \<^verbatim>\<open>handleTimeout(team)\<close>, with the notification it shows. Resetting and starting the
  secondary clock is outside the model.
\<close>

definition handleTimeout :: "app \<Rightarrow> wallClock \<Rightarrow> team \<Rightarrow> notice \<times> app" where
  "handleTimeout st clk t =
     (if \<not> matchStarted st then (StartMatchFirst, st)
      else if gameStoppageActive st then (ResolveStoppageFirst, st)
      else
        let perHalfEnabled = usesPerHalfTimeouts st;
            state = tsGet (timeoutState st) t
        in if totalRemaining state \<le> 0 then (NoTimeoutsRemaining, st)
           else if perHalfEnabled \<and> halfRemaining state \<le> 0 then (NoTimeoutsRemainingThisHalf, st)
           else
             let state1 = state\<lparr>totalRemaining := max 0 (totalRemaining state - 1)\<rparr>;
                 state2 = (if perHalfEnabled
                           then state1\<lparr>halfRemaining := max 0 (halfRemaining state1 - 1)\<rparr>
                           else state1\<lparr>halfRemaining := totalRemaining state1\<rparr>);
                 st1 = st\<lparr>timeoutState := tsSet (timeoutState st) t state2\<rparr>
             in (TimeoutRecorded, snd (recordSpecialEvent st1 clk timeout (Some t) None)))"

text \<open>\<^verbatim>\<open>normalize\<close> of \<^verbatim>\<open>adjustTimeoutCountsForEdit\<close>, on a number.\<close>

definition normalize :: "int \<Rightarrow> int \<Rightarrow> int" where
  "normalize v mx =
     (let bounded = max 0 v
      in if mx \<le> 0 then bounded else min bounded mx)"

definition adjustTeam :: "app \<Rightarrow> int \<Rightarrow> teamTimeouts \<Rightarrow> teamTimeouts" where
  "adjustTeam st d state =
     (let state1 = state\<lparr>totalRemaining :=
                       normalize (totalRemaining state + d) (timeoutsTotal (gameSettings st))\<rparr>
      in state1\<lparr>halfRemaining :=
                  (if usesPerHalfTimeouts st
                   then normalize (halfRemaining state1 + d) (timeoutsPerHalf (gameSettings st))
                   else totalRemaining state1)\<rparr>)"

text \<open>
  \<^verbatim>\<open>adjustTimeoutCountsForEdit(oldTeam, newTeam)\<close>: the old side gets one back
  (\<open>adjustTeam st 1\<close>), then the new side pays one (\<open>adjustTeam st (- 1)\<close>).
\<close>

definition adjustTimeoutCountsForEdit :: "app \<Rightarrow> team option \<Rightarrow> team option \<Rightarrow> app" where
  "adjustTimeoutCountsForEdit st oldTeam newTeam =
     (let st1 = (case oldTeam of
                   None \<Rightarrow> st
                 | Some t \<Rightarrow>
                     st\<lparr>timeoutState :=
                          tsSet (timeoutState st) t (adjustTeam st 1 (tsGet (timeoutState st) t))\<rparr>)
      in case newTeam of
           None \<Rightarrow> st1
         | Some t \<Rightarrow>
             st1\<lparr>timeoutState :=
                   tsSet (timeoutState st1) t (adjustTeam st1 (- 1) (tsGet (timeoutState st1) t))\<rparr>)"

definition openTimeoutEditPopup :: "app \<Rightarrow> nat \<Rightarrow> app" where
  "openTimeoutEditPopup st sid =
     (case getScoreLog (scoreLogs st) sid of
        None \<Rightarrow> st
      | Some logEntry \<Rightarrow>
          if Type logEntry \<noteq> timeout then st else st\<lparr>currentTimeoutEditID := Some sid\<rparr>)"

definition closeTimeoutEditPopup :: "app \<Rightarrow> app" where
  "closeTimeoutEditPopup st = st\<lparr>currentTimeoutEditID := None\<rparr>"

text \<open>
  \<^verbatim>\<open>handleTimeoutEditSave\<close>; \<open>teamLetter\<close> is the value of the selector \<^verbatim>\<open>timeoutEditTeam\<close>
  (\<^verbatim>\<open>'A'\<close>, \<^verbatim>\<open>'B'\<close> or blank).
\<close>

definition handleTimeoutEditSave :: "app \<Rightarrow> wallClock \<Rightarrow> team option \<Rightarrow> app" where
  "handleTimeoutEditSave st clkH teamLetter =
     (case currentTimeoutEditID st of
        None \<Rightarrow> st
      | Some sid \<Rightarrow>
          (case getScoreLog (scoreLogs st) sid of
             None \<Rightarrow> st
           | Some existingLog \<Rightarrow>
               if Type existingLog \<noteq> timeout then st
               else
                 (case teamLetter of
                    None \<Rightarrow> st
                  | Some t \<Rightarrow>
                      let teamName = (if t = TeamA then trim (teamAName st) else trim (teamBName st))
                      in if teamName = [] then st
                         else
                           let oldTeamLetter = TeamLetter existingLog
                           in case updateScoreLog (scoreLogs st) sid
                                     (\<lambda>l. l\<lparr>TeamLetter := Some t, Team := teamName,
                                             TeamName := teamName\<rparr>) of
                                None \<Rightarrow> st
                              | Some logs \<Rightarrow>
                                  let st1 = st\<lparr>scoreLogs := logs\<rparr>;
                                      st2 = (if oldTeamLetter \<noteq> Some t
                                             then adjustTimeoutCountsForEdit st1 oldTeamLetter (Some t)
                                             else st1)
                                  in rebuildTableAndCounters (closeTimeoutEditPopup st2) clkH)))"

text \<open>
  \<^verbatim>\<open>initializeTimeoutState(savedState)\<close>. A saved count is \<open>None\<close> when it is missing or not
  a number; \<open>savedState\<close> itself is \<open>None\<close> when the function is called without an argument.
\<close>

record savedTeam =
  savedTotalRemaining :: "int option"
  savedHalfRemaining :: "int option"

record savedTimeouts =
  savedA :: savedTeam
  savedB :: savedTeam

definition clampCount :: "int option \<Rightarrow> int \<Rightarrow> int \<Rightarrow> int" where
  "clampCount v fallback mx =
     (case v of
        None \<Rightarrow> fallback
      | Some x \<Rightarrow> if x < 0 then fallback else (let upperBound = max 0 mx in min x upperBound))"

definition createState :: "app \<Rightarrow> savedTeam option \<Rightarrow> teamTimeouts" where
  "createState st source =
     (let defaultTotal = max 0 (timeoutsTotal (gameSettings st));
          perHalfEnabled = usesPerHalfTimeouts st;
          defaultHalf = (if perHalfEnabled
                         then min (timeoutsPerHalf (gameSettings st)) defaultTotal
                         else defaultTotal);
          total = clampCount (case source of None \<Rightarrow> None | Some s \<Rightarrow> savedTotalRemaining s)
                    defaultTotal defaultTotal;
          half = (if perHalfEnabled
                  then clampCount (case source of None \<Rightarrow> None | Some s \<Rightarrow> savedHalfRemaining s)
                         defaultHalf defaultHalf
                  else total)
      in \<lparr> totalRemaining = total, halfRemaining = half \<rparr>)"

definition initializeTimeoutState :: "app \<Rightarrow> savedTimeouts option \<Rightarrow> app" where
  "initializeTimeoutState st savedState =
     st\<lparr>timeoutState :=
          \<lparr> tsA = createState st (map_option savedA savedState),
            tsB = createState st (map_option savedB savedState) \<rparr>\<rparr>"

subsection \<open>Match control\<close>

text \<open>
  \<^verbatim>\<open>startMatch\<close>. \<^verbatim>\<open>timerManager.start()\<close> delivers a first tick to \<^verbatim>\<open>handleMainTimerTick\<close>
  before it returns; \<open>totalMs\<close> is the reading of that tick.
\<close>

definition startMatch :: "app \<Rightarrow> wallClock \<Rightarrow> int \<Rightarrow> app" where
  "startMatch st clk totalMs =
     (if matchStarted st then st
      else if trim (teamAName st) = [] \<or> trim (teamBName st) = [] then st
      else if gameStoppageActive st then st
      else
        let st1 = st\<lparr>halftimeTriggered := False, currentHalftimeEditID := None,
                      halftimePendingReason := None, halftimeAutoSuppressed := False,
                      halftimeReasonResolved := None, hardCapReached := False,
                      matchStarted := True\<rparr>;
            st2 = handleMainTimerTick st1 totalMs
        in snd (recordSpecialEvent st2 clk matchstart None None))"

definition openHalftimeEditPopup :: "app \<Rightarrow> nat \<Rightarrow> app" where
  "openHalftimeEditPopup st sid =
     (case getScoreLog (scoreLogs st) sid of
        None \<Rightarrow> st
      | Some logEntry \<Rightarrow>
          if Type logEntry \<noteq> halftime then st else st\<lparr>currentHalftimeEditID := Some sid\<rparr>)"

definition closeHalftimeEditPopup :: "app \<Rightarrow> app" where
  "closeHalftimeEditPopup st = st\<lparr>currentHalftimeEditID := None\<rparr>"

definition handleHalftimeDelete :: "app \<Rightarrow> wallClock \<Rightarrow> app" where
  "handleHalftimeDelete st clkH =
     (case currentHalftimeEditID st of
        None \<Rightarrow> st
      | Some sid \<Rightarrow>
          (case removeScoreLog (scoreLogs st) sid of
             None \<Rightarrow> st
           | Some (removed, logs) \<Rightarrow>
               let st1 = st\<lparr>scoreLogs := logs, halftimeAutoSuppressed := True,
                             halftimePendingReason := None, halftimeTriggered := False,
                             halftimeReasonResolved := None\<rparr>
               in rebuildTableAndCounters (closeHalftimeEditPopup st1) clkH))"

text \<open>
  \<^verbatim>\<open>handleStoppageToggle\<close>. When the stoppage is cleared and the handler starts the primary
  clock, \<open>tick\<close> is the reading of the first tick the clock delivers; \<open>None\<close> when the
  clock was running already.
\<close>

definition handleStoppageToggle :: "app \<Rightarrow> wallClock \<Rightarrow> int option \<Rightarrow> app" where
  "handleStoppageToggle st clk tick =
     (let st1 = st\<lparr>gameStoppageActive := \<not> gameStoppageActive st\<rparr>
      in if gameStoppageActive st1
         then snd (recordSpecialEvent st1 clk stoppage None None)
         else
           let shouldRestartMain = (matchStarted st1 \<and> \<not> hardCapReached st1)
           in (case tick of
                 None \<Rightarrow> st1
               | Some totalMs \<Rightarrow> if shouldRestartMain then handleMainTimerTick st1 totalMs else st1))"

text \<open>The team selectors of the page: the operator picks a name for a side.\<close>

definition selectTeam :: "app \<Rightarrow> team \<Rightarrow> string \<Rightarrow> app" where
  "selectTeam st t name =
     (case t of TeamA \<Rightarrow> st\<lparr>teamAName := name\<rparr> | TeamB \<Rightarrow> st\<lparr>teamBName := name\<rparr>)"

subsection \<open>Setup\<close>

text \<open>
  The setup form: each number field after \<^verbatim>\<open>parseInt(value, 10)\<close>, \<open>None\<close> being \<^verbatim>\<open>NaN\<close>, and
  the value of the selector \<^verbatim>\<open>setupAbba\<close>.
\<close>

record setupForm =
  setupMatchDuration :: "int option"
  setupHalftime :: "int option"
  setupTimeoutDuration :: "int option"
  setupTimeoutsTotal :: "int option"
  setupTimeoutsPerHalf :: "int option"
  setupHalftimeDuration :: "int option"
  setupAbba :: string

definition clampNumber :: "int option \<Rightarrow> int \<Rightarrow> int \<Rightarrow> int \<Rightarrow> int" where
  "clampNumber parsed fallback mn mx =
     (case parsed of None \<Rightarrow> fallback | Some p \<Rightarrow> max mn (min mx p))"

text \<open>\<^verbatim>\<open>handleAbbaChange(newValue, shouldAutoSave)\<close> with a string for \<^verbatim>\<open>newValue\<close>.\<close>

definition handleAbbaChange :: "app \<Rightarrow> string \<Rightarrow> app" where
  "handleAbbaChange st newValue =
     st\<lparr>abbaStart := (if newValue = ''F'' \<or> newValue = ''NONE'' then newValue else ''M'')\<rparr>"

text \<open>
  \<^verbatim>\<open>handleSetupSave\<close>. \<open>totalMs\<close> is the reading of the primary clock for the closing call
  of \<^verbatim>\<open>maybeTriggerHalftimeByTime\<close>.
\<close>

definition handleSetupSave :: "app \<Rightarrow> setupForm \<Rightarrow> wallClock \<Rightarrow> int \<Rightarrow> app" where
  "handleSetupSave st form clkH totalMs =
     (let old = gameSettings st;
          newMatchDuration = clampNumber (setupMatchDuration form) (matchDuration old) 1 300;
          newHalftimeDuration =
            clampNumber (setupHalftime form) (halftimeDuration old) 1 newMatchDuration;
          newTimeoutDuration =
            clampNumber (setupTimeoutDuration form) (timeoutDuration old) 1 3600;
          newTimeoutsTotal = clampNumber (setupTimeoutsTotal form) (timeoutsTotal old) 0 10;
          newTimeoutsPerHalf0 =
            clampNumber (setupTimeoutsPerHalf form) (timeoutsPerHalf old) 0 10;
          newTimeoutsPerHalf = min newTimeoutsPerHalf0 newTimeoutsTotal;
          newHalftimeBreakDuration =
            clampNumber (setupHalftimeDuration form) (halftimeBreakDuration old) 1 120;
          abbaSelection = (if setupAbba form \<noteq> [] then setupAbba form
                           else if abbaStart st \<noteq> [] then abbaStart st else ''M'');
          st1 = st\<lparr>gameSettings :=
                      \<lparr> matchDuration = newMatchDuration,
                        halftimeDuration = newHalftimeDuration,
                        halftimeBreakDuration = newHalftimeBreakDuration,
                        timeoutDuration = newTimeoutDuration,
                        timeoutsTotal = newTimeoutsTotal,
                        timeoutsPerHalf = newTimeoutsPerHalf \<rparr>\<rparr>;
          st2 = initializeTimeoutState st1 None;
          st3 = handleAbbaChange st2 abbaSelection;
          st4 = maybeTriggerHalftimeByScore st3 clkH
      in maybeTriggerHalftimeByTime st4 totalMs)"

subsection \<open>Submit and the exported file\<close>

text \<open>\<^verbatim>\<open>Array.prototype.join\<close> on strings.\<close>

fun joinWith :: "string \<Rightarrow> string list \<Rightarrow> string" where
  "joinWith sep [] = []"
| "joinWith sep [x] = x"
| "joinWith sep (x # y # ys) = x @ sep @ joinWith sep (y # ys)"

text \<open>\<^verbatim>\<open>Utils.toCSVLine\<close>: a field holding a quote, a comma or a line break is quoted.\<close>

definition csvField :: "string \<Rightarrow> string" where
  "csvField s =
     (if list_ex (\<lambda>c. c = CHR 0x22 \<or> c = CHR '','' \<or> c = CHR 0x0A \<or> c = CHR 0x0D) s
      then [CHR 0x22] @ concat (map (\<lambda>c. if c = CHR 0x22 then [CHR 0x22, CHR 0x22] else [c]) s)
           @ [CHR 0x22]
      else s)"

definition toCSVLine :: "string list \<Rightarrow> string" where
  "toCSVLine fs = joinWith '','' (map csvField fs)"

text \<open>
  The rows \<^verbatim>\<open>handleSubmitScore\<close> builds, as lists of fields: the header, then one row for
  each entry of the log in the order of the log.
\<close>

definition csvHeader :: "string list" where
  "csvHeader = [''GameID'', ''Time'', ''Event'', ''Team'', ''Score'', ''Assist'']"

definition csvRow :: "app \<Rightarrow> logEntry \<Rightarrow> string list" where
  "csvRow st entry =
     (let gameID = teamAName st @ '' vs '' @ teamBName st;
          eventType = (if EventType entry \<noteq> [] then EventType entry
                       else getEventTypeLabel (Type entry))
      in [ (if GameID entry \<noteq> [] then GameID entry else gameID),
           Time entry, eventType, Team entry, Score entry, Assist entry ])"

definition csvRows :: "app \<Rightarrow> string list list" where
  "csvRows st = csvHeader # map (csvRow st) (scoreLogs st)"

definition csvText :: "app \<Rightarrow> string" where
  "csvText st = joinWith [CHR 0x0D, CHR 0x0A] (map toCSVLine (csvRows st))"

text \<open>
  \<^verbatim>\<open>handleSubmitScore\<close>: the text of the downloaded file (\<open>None\<close> when the log is empty and
  nothing is exported) and the state after the reset. The upload to the remote sheet is
  outside the model.
\<close>

definition handleSubmitScore :: "app \<Rightarrow> wallClock \<Rightarrow> string option \<times> app" where
  "handleSubmitScore st clkH =
     (if scoreLogs st = [] then (None, st)
      else
        let csv = csvText st;
            st1 = rebuildTableAndCounters (st\<lparr>scoreLogs := []\<rparr>) clkH;
            st2 = st1\<lparr>currentEditID := None, currentHalftimeEditID := None,
                      halftimeTriggered := False, halftimePendingReason := None,
                      halftimeAutoSuppressed := False, halftimeReasonResolved := None\<rparr>;
            st3 = initializeTimeoutState st2 None
        in (Some csv, st3\<lparr>matchStarted := False, gameStoppageActive := False,
                           hardCapReached := False\<rparr>))"

subsection \<open>The operator's actions\<close>

text \<open>
  One constructor for each control of the page that reaches the match logic, with what
  the environment supplies to the handler. A gear button exists only on a row of the
  table, so the three edit actions carry the id of a row of the right kind
  (\<^verbatim>\<open>createScoreRow\<close> attaches \<^verbatim>\<open>editScore\<close> to score rows, \<^verbatim>\<open>openTimeoutEditPopup\<close> to timeout
  rows and \<^verbatim>\<open>openHalftimeEditPopup\<close> to halftime rows); the add-score buttons test
  \<^verbatim>\<open>matchStarted\<close> themselves before they call \<^verbatim>\<open>openPopup\<close>.
\<close>

datatype action =
    StartMatch wallClock int
  | SelectTeam team string
  | AddScoreButton team
  | EditScoreGear nat
  | SaveScore wallClock wallClock string string
  | DeleteScore wallClock
  | ClosePopup
  | TimeoutButton wallClock team
  | TimeoutGear nat
  | SaveTimeoutEdit wallClock "team option"
  | CloseTimeoutEdit
  | HalftimeButton wallClock
  | HalftimeGear nat
  | DeleteHalftime wallClock
  | CloseHalftimeEdit
  | StoppageButton wallClock "int option"
  | TimerTick int
  | SaveSetup setupForm wallClock int
  | Submit wallClock

definition hasRow :: "app \<Rightarrow> logType \<Rightarrow> nat \<Rightarrow> bool" where
  "hasRow st ty sid = list_ex (\<lambda>l. getLogType l = ty \<and> scoreID l = sid) (scoreLogs st)"

fun step :: "app \<Rightarrow> action \<Rightarrow> app" where
  "step st (StartMatch clk totalMs) = startMatch st clk totalMs"
| "step st (SelectTeam t name) = selectTeam st t name"
| "step st (AddScoreButton t) = (if \<not> matchStarted st then st else openPopup st t)"
| "step st (EditScoreGear sid) = (if hasRow st score sid then editScore st sid else st)"
| "step st (SaveScore clk clkH scorer assist) = handleSaveScore st clk clkH scorer assist"
| "step st (DeleteScore clkH) = handleDeleteScore st clkH"
| "step st ClosePopup = closePopup st"
| "step st (TimeoutButton clk t) = snd (handleTimeout st clk t)"
| "step st (TimeoutGear sid) = (if hasRow st timeout sid then openTimeoutEditPopup st sid else st)"
| "step st (SaveTimeoutEdit clkH teamLetter) = handleTimeoutEditSave st clkH teamLetter"
| "step st CloseTimeoutEdit = closeTimeoutEditPopup st"
| "step st (HalftimeButton clk) = snd (handleHalftime st clk ''manual'')"
| "step st (HalftimeGear sid) = (if hasRow st halftime sid then openHalftimeEditPopup st sid else st)"
| "step st (DeleteHalftime clkH) = handleHalftimeDelete st clkH"
| "step st CloseHalftimeEdit = closeHalftimeEditPopup st"
| "step st (StoppageButton clk tick) = handleStoppageToggle st clk tick"
| "step st (TimerTick totalMs) = handleMainTimerTick st totalMs"
| "step st (SaveSetup form clkH totalMs) = handleSetupSave st form clkH totalMs"
| "step st (Submit clkH) = snd (handleSubmitScore st clkH)"

text \<open>A sequence of actions, applied from left to right.\<close>

definition run :: "app \<Rightarrow> action list \<Rightarrow> app" where
  "run st acts = foldl step st acts"

subsection \<open>The ABBA label\<close>

text \<open>
  \<^verbatim>\<open>computeAbbaForIndex(index)\<close>, with \<^verbatim>\<open>this.abbaStart\<close> as first argument. The index counts
  the score entries from 0. The column of the table (\<^verbatim>\<open>updateAbbaColumn\<close>, which finds the
  entry of each row by the row's id) is not embedded.
\<close>

definition computeAbbaForIndex :: "string \<Rightarrow> nat \<Rightarrow> string" where
  "computeAbbaForIndex abbaStart' index =
     (if abbaStart' = ''NONE'' then []
      else
        let start = (if abbaStart' = ''F'' then ''F'' else ''M'');
            other = (if start = ''M'' then ''F'' else ''M'')
        in if index = 0 then start
           else
             let adjusted = index - 1;
                 block = adjusted div 2
             in if block mod 2 = 0 then other else start)"

subsection \<open>The scoreboard of the specification\<close>


text \<open>
  Auxiliary notions for the proofs: the letters of the score entries of a log, their tally,
  and the invariant that the counters are that tally and every score entry has a letter.
\<close>

definition board :: "logEntry list \<Rightarrow> team option list" where
  "board logs = map TeamLetter (filter (\<lambda>l. Type l = score) logs)"

definition tally :: "team option list \<Rightarrow> nat \<times> nat" where
  "tally b = (length (filter (\<lambda>x. x = Some TeamA) b), length (filter (\<lambda>x. x = Some TeamB) b))"

definition scoreInv :: "app \<Rightarrow> bool" where
  "scoreInv st = ((teamAScore st, teamBScore st) = tally (board (scoreLogs st))
                  \<and> None \<notin> set (board (scoreLogs st)))"

subsection \<open>Example matches\<close>

text \<open>
  Concrete inputs for the instances below: a clock reading at a given millisecond, and
  the opening of a match between Red and Blue with the default setup (primary clock at
  100 minutes).
\<close>

definition clockAt :: "nat \<Rightarrow> wallClock" where
  "clockAt n = \<lparr> DateNow = n, toLocaleString = ''12:00'' \<rparr>"

definition kickoff :: "action list" where
  "kickoff =
     [SelectTeam TeamA ''Red'', SelectTeam TeamB ''Blue'', StartMatch (clockAt 1000) 6000000]"

text \<open>Team A has called its two timeouts.\<close>

definition twoTimeouts :: app where
  "twoTimeouts =
     run initialApp
       (kickoff @ [TimeoutButton (clockAt 2000) TeamA, TimeoutButton (clockAt 3000) TeamA])"

text \<open>
  A setup with three timeouts per team and two per half; team A has called two timeouts
  in the first half.
\<close>

definition shortHalves :: setupForm where
  "shortHalves =
     \<lparr> setupMatchDuration = Some 100, setupHalftime = Some 55, setupTimeoutDuration = Some 75,
       setupTimeoutsTotal = Some 3, setupTimeoutsPerHalf = Some 2,
       setupHalftimeDuration = Some 7, setupAbba = ''M'' \<rparr>"

definition beforeHalftime :: app where
  "beforeHalftime =
     run initialApp
       (SaveSetup shortHalves (clockAt 500) 6000000 # kickoff
        @ [TimeoutButton (clockAt 2000) TeamA, TimeoutButton (clockAt 3000) TeamA])"

text \<open>The state after \<open>kickoff\<close>, written out.\<close>

definition kickoffState :: app where
  "kickoffState =
     initialApp
       \<lparr> scoreLogs :=
           [\<lparr> scoreID = 1000, GameID = ''Red vs Blue'', Time = ''12:00'', Team = [],
              TeamName = [], TeamLetter = None, Score = [], Assist = [], Type = matchstart,
              Event = ''MatchStart'', EventType = ''Start'', HalftimeReason = None \<rparr>],
         teamAName := ''Red'', teamBName := ''Blue'', matchStarted := True \<rparr>"

text \<open>
  The primary clock reaches 45:00 (the default match is 100 minutes with halftime due
  after 55), then team A scores; the clock answers 5000 to both \<^verbatim>\<open>Date.now()\<close> calls of the
  handler.
\<close>

definition sameMillisecond :: app where
  "sameMillisecond =
     run initialApp
       (kickoff @ [TimerTick 2700000, AddScoreButton TeamA,
                   SaveScore (clockAt 5000) (clockAt 5000) ''Alice'' ''Bob''])"

text \<open>
  A setup whose halftime is due after the full 60 minutes of the match, and the match
  started with it.
\<close>

definition untilTheEnd :: setupForm where
  "untilTheEnd =
     \<lparr> setupMatchDuration = Some 60, setupHalftime = Some 60, setupTimeoutDuration = Some 75,
       setupTimeoutsTotal = Some 2, setupTimeoutsPerHalf = Some 0,
       setupHalftimeDuration = Some 7, setupAbba = ''M'' \<rparr>"

definition noClockHalftime :: app where
  "noClockHalftime =
     run initialApp
       [SaveSetup untilTheEnd (clockAt 500) 3600000,
        SelectTeam TeamA ''Red'', SelectTeam TeamB ''Blue'', StartMatch (clockAt 1000) 3600000]"

definition lateHalftimeState :: app where
  "lateHalftimeState =
     kickoffState\<lparr>gameSettings := defaultSettings\<lparr>matchDuration := 60, halftimeDuration := 60\<rparr>\<rparr>"

subsection \<open>The timeout balance\<close>

text \<open>
  The quantity of the conservation claim: a team's \<^verbatim>\<open>totalRemaining\<close> plus the number of
  timeout entries of the log that carry the team's letter.
\<close>

definition timeoutCount :: "logEntry list \<Rightarrow> team \<Rightarrow> nat" where
  "timeoutCount logs t = length (filter (\<lambda>l. Type l = timeout \<and> TeamLetter l = Some t) logs)"

definition timeoutSum :: "app \<Rightarrow> team \<Rightarrow> int" where
  "timeoutSum st t =
     totalRemaining (tsGet (timeoutState st) t) + int (timeoutCount (scoreLogs st) t)"

text \<open>
  The reassignments that keep the balance: the timeout under edit moves from its side to
  the other one, the side that gives it away has a balance below \<^verbatim>\<open>timeoutsTotal\<close>, and the
  side that receives it has a timeout left to pay with.
\<close>

definition reassignKeepsBalance :: "app \<Rightarrow> team \<Rightarrow> bool" where
  "reassignKeepsBalance st new =
     (case currentTimeoutEditID st of
        None \<Rightarrow> False
      | Some sid \<Rightarrow>
          (case getScoreLog (scoreLogs st) sid of
             None \<Rightarrow> False
           | Some e \<Rightarrow>
               Type e = timeout
               \<and> trim (if new = TeamA then teamAName st else teamBName st) \<noteq> []
               \<and> (case TeamLetter e of
                     None \<Rightarrow> False
                   | Some old \<Rightarrow>
                       old \<noteq> new
                       \<and> 0 \<le> totalRemaining (tsGet (timeoutState st) old)
                       \<and> totalRemaining (tsGet (timeoutState st) old) < timeoutsTotal (gameSettings st)
                       \<and> 1 \<le> totalRemaining (tsGet (timeoutState st) new)
                       \<and> totalRemaining (tsGet (timeoutState st) new) \<le> timeoutsTotal (gameSettings st))))"

text \<open>Example states for the timeout balance: Red's and Blue's timeout entries.\<close>

definition timeoutEntry :: "nat \<Rightarrow> team \<Rightarrow> logEntry" where
  "timeoutEntry n t =
     \<lparr> scoreID = n, GameID = ''Red vs Blue'', Time = ''12:00'',
       Team = (if t = TeamA then ''Red'' else ''Blue''),
       TeamName = (if t = TeamA then ''Red'' else ''Blue''),
       TeamLetter = Some t, Score = [], Assist = [], Type = timeout,
       Event = ''Time out'', EventType = ''TimeOut'', HalftimeReason = None \<rparr>"

definition oneTimeoutOpen :: app where
  "oneTimeoutOpen =
     run initialApp (kickoff @ [TimeoutButton (clockAt 2000) TeamA, TimeoutGear 2000])"

definition oneTimeoutOpenState :: app where
  "oneTimeoutOpenState =
     kickoffState
       \<lparr> scoreLogs := scoreLogs kickoffState @ [timeoutEntry 2000 TeamA],
         timeoutState := \<lparr> tsA = \<lparr> totalRemaining = 1, halfRemaining = 1 \<rparr>,
                           tsB = \<lparr> totalRemaining = 2, halfRemaining = 2 \<rparr> \<rparr>,
         currentTimeoutEditID := Some 2000 \<rparr>"

definition threeTimeouts :: app where
  "threeTimeouts =
     run initialApp
       (kickoff @ [TimeoutButton (clockAt 2000) TeamA, TimeoutButton (clockAt 3000) TeamA,
                   TimeoutButton (clockAt 4000) TeamB, TimeoutGear 4000])"

definition threeTimeoutsState :: app where
  "threeTimeoutsState =
     kickoffState
       \<lparr> scoreLogs := scoreLogs kickoffState
            @ [timeoutEntry 2000 TeamA, timeoutEntry 3000 TeamA, timeoutEntry 4000 TeamB],
         timeoutState := \<lparr> tsA = \<lparr> totalRemaining = 0, halfRemaining = 0 \<rparr>,
                           tsB = \<lparr> totalRemaining = 1, halfRemaining = 1 \<rparr> \<rparr>,
         currentTimeoutEditID := Some 4000 \<rparr>"

text \<open>
  A setup with no timeouts at all, saved after team A has called a timeout; the timeout
  is then reassigned to team B.
\<close>

definition zeroTimeouts :: setupForm where
  "zeroTimeouts =
     \<lparr> setupMatchDuration = Some 100, setupHalftime = Some 55, setupTimeoutDuration = Some 75,
       setupTimeoutsTotal = Some 0, setupTimeoutsPerHalf = Some 0,
       setupHalftimeDuration = Some 7, setupAbba = ''M'' \<rparr>"

definition reassignedUnderZero :: app where
  "reassignedUnderZero =
     run initialApp
       (kickoff @ [TimeoutButton (clockAt 2000) TeamA,
                   SaveSetup zeroTimeouts (clockAt 2500) 5400000,
                   TimeoutGear 2000,
                   SaveTimeoutEdit (clockAt 3000) (Some TeamB)])"

definition zeroSetupState :: app where
  "zeroSetupState =
     kickoffState
       \<lparr> scoreLogs := scoreLogs kickoffState @ [timeoutEntry 2000 TeamA],
         gameSettings := defaultSettings\<lparr>timeoutsTotal := 0\<rparr>,
         timeoutState := \<lparr> tsA = \<lparr> totalRemaining = 0, halfRemaining = 0 \<rparr>,
                           tsB = \<lparr> totalRemaining = 0, halfRemaining = 0 \<rparr> \<rparr>,
         currentTimeoutEditID := Some 2000 \<rparr>"

definition reassignedUnderZeroState :: app where
  "reassignedUnderZeroState =
     kickoffState
       \<lparr> scoreLogs := scoreLogs kickoffState @ [timeoutEntry 2000 TeamB],
         gameSettings := defaultSettings\<lparr>timeoutsTotal := 0\<rparr>,
         timeoutState := \<lparr> tsA = \<lparr> totalRemaining = 1, halfRemaining = 1 \<rparr>,
                           tsB = \<lparr> totalRemaining = 0, halfRemaining = 0 \<rparr> \<rparr> \<rparr>"

text \<open>
  Whether removing the entry under edit takes a timeout entry of the team out of the log.
  \<^verbatim>\<open>handleDeleteScore\<close> and \<^verbatim>\<open>handleHalftimeDelete\<close> remove the first entry that carries the id
  under edit (\<^verbatim>\<open>removeScoreLog\<close>), whatever its type.
\<close>

definition removesTimeoutOf :: "logEntry list \<Rightarrow> nat option \<Rightarrow> team \<Rightarrow> bool" where
  "removesTimeoutOf logs editID u =
     (case editID of
        None \<Rightarrow> False
      | Some sid \<Rightarrow>
          (case getScoreLog logs sid of
             None \<Rightarrow> False
           | Some e \<Rightarrow> Type e = timeout \<and> TeamLetter e = Some u))"

text \<open>
  Example states for the deletions: a point (id 5000) after a timeout of team A, open for
  edit; a halftime (id 3000) called after a timeout of team A; and a point of team A
  saved in the millisecond 2000 of a timeout of team B, so that the two entries share
  the id and the gear of the score row opens the timeout entry.
\<close>

definition scoreEntry :: "nat \<Rightarrow> logEntry" where
  "scoreEntry n =
     \<lparr> scoreID = n, GameID = ''Red vs Blue'', Time = ''12:00'', Team = ''Red'',
       TeamName = ''Red'', TeamLetter = Some TeamA, Score = ''Alice'',
       Assist = ''Bob'', Type = score, Event = [], EventType = ''Score'',
       HalftimeReason = None \<rparr>"

definition halftimeEntry :: "nat \<Rightarrow> string \<Rightarrow> logEntry" where
  "halftimeEntry n r =
     \<lparr> scoreID = n, GameID = ''Red vs Blue'', Time = ''12:00'', Team = [],
       TeamName = [], TeamLetter = None, Score = [], Assist = [], Type = halftime,
       Event = ''HT'', EventType = ''HalfTime'', HalftimeReason = Some r \<rparr>"

definition pointAfterTimeout :: app where
  "pointAfterTimeout =
     run initialApp
       (kickoff @ [TimeoutButton (clockAt 2000) TeamA, AddScoreButton TeamA,
                   SaveScore (clockAt 5000) (clockAt 6000) ''Alice'' ''Bob'', EditScoreGear 5000])"

definition pointAfterTimeoutState :: app where
  "pointAfterTimeoutState =
     kickoffState
       \<lparr> scoreLogs := scoreLogs kickoffState @ [timeoutEntry 2000 TeamA, scoreEntry 5000],
         popupTeam := Some TeamA,
         timeoutState := \<lparr> tsA = \<lparr> totalRemaining = 1, halfRemaining = 1 \<rparr>,
                           tsB = \<lparr> totalRemaining = 2, halfRemaining = 2 \<rparr> \<rparr>,
         teamAScore := 1, currentEditID := Some 5000 \<rparr>"

definition halftimeAfterTimeout :: app where
  "halftimeAfterTimeout =
     run initialApp (kickoff @ [TimeoutButton (clockAt 2000) TeamA, HalftimeButton (clockAt 3000)])"

definition halftimeAfterTimeoutState :: app where
  "halftimeAfterTimeoutState =
     kickoffState
       \<lparr> scoreLogs := scoreLogs kickoffState
            @ [timeoutEntry 2000 TeamA, halftimeEntry 3000 ''manual''],
         timeoutState := \<lparr> tsA = \<lparr> totalRemaining = 1, halfRemaining = 1 \<rparr>,
                           tsB = \<lparr> totalRemaining = 2, halfRemaining = 2 \<rparr> \<rparr>,
         currentHalftimeEditID := Some 3000, halftimeTriggered := True,
         halftimeReasonResolved := Some ''manual'' \<rparr>"

definition timeoutUnderScoreId :: app where
  "timeoutUnderScoreId =
     run initialApp
       (kickoff @ [TimeoutButton (clockAt 2000) TeamB, AddScoreButton TeamA,
                   SaveScore (clockAt 2000) (clockAt 2000) ''Alice'' ''Bob'', EditScoreGear 2000])"

definition timeoutUnderScoreIdState :: app where
  "timeoutUnderScoreIdState =
     kickoffState
       \<lparr> scoreLogs := scoreLogs kickoffState @ [timeoutEntry 2000 TeamB, scoreEntry 2000],
         popupTeam := Some TeamB,
         timeoutState := \<lparr> tsA = \<lparr> totalRemaining = 2, halfRemaining = 2 \<rparr>,
                           tsB = \<lparr> totalRemaining = 1, halfRemaining = 1 \<rparr> \<rparr>,
         teamAScore := 1, currentEditID := Some 2000 \<rparr>"

text \<open>
  The bounds of a side's balance: \<^verbatim>\<open>totalRemaining\<close> from 0 to \<^verbatim>\<open>timeoutsTotal\<close> and, with
  per-half limiting, \<^verbatim>\<open>halfRemaining\<close> from 0 to \<^verbatim>\<open>timeoutsPerHalf\<close>. The invariant of the
  reachable states: the per-half allotment lies within the total allotment, and the
  balances lie within their bounds unless the total allotment is 0.
\<close>

definition withinBounds :: "app \<Rightarrow> team \<Rightarrow> bool" where
  "withinBounds st t =
     (0 \<le> totalRemaining (tsGet (timeoutState st) t)
      \<and> totalRemaining (tsGet (timeoutState st) t) \<le> timeoutsTotal (gameSettings st)
      \<and> (\<not> usesPerHalfTimeouts st
          \<or> (0 \<le> halfRemaining (tsGet (timeoutState st) t)
              \<and> halfRemaining (tsGet (timeoutState st) t) \<le> timeoutsPerHalf (gameSettings st))))"

definition timeoutInv :: "app \<Rightarrow> bool" where
  "timeoutInv st =
     (0 \<le> timeoutsPerHalf (gameSettings st)
      \<and> timeoutsPerHalf (gameSettings st) \<le> timeoutsTotal (gameSettings st)
      \<and> (timeoutsTotal (gameSettings st) = 0
          \<or> (withinBounds st TeamA \<and> withinBounds st TeamB)))"

subsection \<open>Entries as they are exported\<close>

text \<open>
  An entry is well labelled when it carries the \<^verbatim>\<open>EventType\<close> that \<^verbatim>\<open>getEventTypeLabel\<close> gives
  its \<^verbatim>\<open>Type\<close>, and a \<^verbatim>\<open>GameID\<close>: the auxiliary invariant of the log for the export. The
  example is the first point of a match.
\<close>

definition wellLabelled :: "logEntry \<Rightarrow> bool" where
  "wellLabelled l = (GameID l \<noteq> [] \<and> EventType l = getEventTypeLabel (Type l))"

abbreviation logsLabelled :: "app \<Rightarrow> bool" where
  "logsLabelled st \<equiv> list_all wellLabelled (scoreLogs st)"

definition firstPoint :: app where
  "firstPoint =
     run initialApp
       (kickoff @ [AddScoreButton TeamA, SaveScore (clockAt 5000) (clockAt 6000) ''Alice'' ''Bob''])"

definition firstPointState :: app where
  "firstPointState =
     kickoffState
       \<lparr> scoreLogs := scoreLogs kickoffState
            @ [\<lparr> scoreID = 5000, GameID = ''Red vs Blue'', Time = ''12:00'', Team = ''Red'',
                 TeamName = ''Red'', TeamLetter = Some TeamA, Score = ''Alice'',
                 Assist = ''Bob'', Type = score, Event = [], EventType = ''Score'',
                 HalftimeReason = None \<rparr>],
         popupTeam := Some TeamA, teamAScore := 1 \<rparr>"

subsection \<open>Persistence and recovery\<close>

text \<open>
  \<^verbatim>\<open>dataManager.gameState\<close>: the aggregate that \<^verbatim>\<open>autoSave\<close> writes under one storage key and
  \<^verbatim>\<open>loadGameState\<close> reads back. Its fields carry the prefix \<open>gs\<close> (the source uses the names
  of the application's fields). A number of the stored setup is \<open>None\<close> when it is missing
  or not a number, \<^verbatim>\<open>matchStarted\<close> is \<open>None\<close> when it is not a boolean, and a \<^verbatim>\<open>timestamp\<close> of
  0 stands for a missing one. The roster text areas and the game-time field of the page
  are not modelled.
\<close>

record snapshot =
  gsTeamAScore :: nat
  gsTeamBScore :: nat
  gsTeamAName :: string
  gsTeamBName :: string
  gsMatchDuration :: "int option"
  gsHalftimeDuration :: "int option"
  gsHalftimeBreakDuration :: "int option"
  gsTimeoutDuration :: "int option"
  gsTimeoutsTotal :: "int option"
  gsTimeoutsPerHalf :: "int option"
  gsAbbaStart :: string
  gsStoppageActive :: bool
  gsTimeoutState :: "savedTimeouts option"
  gsHalftimeReasonResolved :: "string option"
  gsScoreLogs :: "logEntry list"
  gsMatchStarted :: "bool option"
  gsTimestamp :: nat

text \<open>
  The part of \<^verbatim>\<open>TimerManager\<close> that \<^verbatim>\<open>saveTimerState\<close> stores under its own keys and
  \<^verbatim>\<open>loadTimerState\<close> reads back in the constructor: \<^verbatim>\<open>endTime\<close> (in milliseconds), \<^verbatim>\<open>isRunning\<close>
  and \<^verbatim>\<open>remainingTimeMs\<close>.
\<close>

record timer =
  endTime :: "nat option"
  isRunning :: bool
  remainingTimeMs :: "int option"

text \<open>
  A session after the constructors have run: the application, the stored aggregate, the
  cached roster (\<^verbatim>\<open>dataManager.teamsData\<close>) and the primary clock.
\<close>

record session =
  theApp :: app
  gameState :: snapshot
  teamsData :: "(string \<times> string list) list"
  primaryClock :: timer

text \<open>The default state of \<^verbatim>\<open>DataManager.resetGameState\<close>, stamped with \<^verbatim>\<open>Date.now()\<close>.\<close>

definition freshGameState :: "nat \<Rightarrow> snapshot" where
  "freshGameState now =
     \<lparr> gsTeamAScore = 0, gsTeamBScore = 0, gsTeamAName = [], gsTeamBName = [],
       gsMatchDuration = Some 100, gsHalftimeDuration = Some 55,
       gsHalftimeBreakDuration = Some 7, gsTimeoutDuration = Some 75,
       gsTimeoutsTotal = Some 2, gsTimeoutsPerHalf = Some 0,
       gsAbbaStart = ''M'', gsStoppageActive = False,
       gsTimeoutState =
         Some \<lparr> savedA = \<lparr> savedTotalRemaining = Some 2, savedHalfRemaining = Some 2 \<rparr>,
                savedB = \<lparr> savedTotalRemaining = Some 2, savedHalfRemaining = Some 2 \<rparr> \<rparr>,
       gsHalftimeReasonResolved = None, gsScoreLogs = [], gsMatchStarted = Some False,
       gsTimestamp = now \<rparr>"

text \<open>\<^verbatim>\<open>DataManager.resetGameState\<close>: the stored state and the log start afresh.\<close>

definition resetGameState :: "session \<Rightarrow> nat \<Rightarrow> session" where
  "resetGameState sess now =
     sess\<lparr>gameState := freshGameState now, theApp := (theApp sess)\<lparr>scoreLogs := []\<rparr>\<rparr>"

text \<open>
  A launch of the page: the constructors of \<^verbatim>\<open>DataManager\<close> (\<^verbatim>\<open>loadAllData\<close>), of \<^verbatim>\<open>TimerManager\<close>
  and of \<^verbatim>\<open>ScorekeeperApp\<close>, from what the store holds. \<open>clock\<close> is the primary clock as
  \<^verbatim>\<open>loadTimerState\<close> leaves it.
\<close>

definition launch :: "snapshot \<Rightarrow> (string \<times> string list) list \<Rightarrow> timer \<Rightarrow> session" where
  "launch stored cachedTeamsData clock =
     \<lparr> theApp = initialApp\<lparr>scoreLogs := gsScoreLogs stored\<rparr>,
       gameState = stored, teamsData = cachedTeamsData, primaryClock = clock \<rparr>"

text \<open>
  \<^verbatim>\<open>getTimeoutStateSnapshot\<close> and \<^verbatim>\<open>autoSave\<close>, with \<^verbatim>\<open>Date.now()\<close> as \<open>now\<close>: the aggregate that
  \<^verbatim>\<open>autoSave\<close> hands to \<^verbatim>\<open>updateGameState\<close> when no restore is in progress (it returns at once
  while \<^verbatim>\<open>isRestoring\<close> holds).
\<close>

definition getTimeoutStateSnapshot :: "app \<Rightarrow> savedTimeouts" where
  "getTimeoutStateSnapshot st =
     (let makeCopy = (\<lambda>source.
            let total = totalRemaining source;
                half = (if usesPerHalfTimeouts st then halfRemaining source else total)
            in \<lparr> savedTotalRemaining = Some total, savedHalfRemaining = Some half \<rparr>)
      in \<lparr> savedA = makeCopy (tsA (timeoutState st)), savedB = makeCopy (tsB (timeoutState st)) \<rparr>)"

definition autoSave :: "session \<Rightarrow> nat \<Rightarrow> session" where
  "autoSave sess now =
     (let st = theApp sess
      in sess\<lparr>gameState :=
           \<lparr> gsTeamAScore = teamAScore st, gsTeamBScore = teamBScore st,
             gsTeamAName = teamAName st, gsTeamBName = teamBName st,
             gsMatchDuration = Some (matchDuration (gameSettings st)),
             gsHalftimeDuration = Some (halftimeDuration (gameSettings st)),
             gsHalftimeBreakDuration = Some (halftimeBreakDuration (gameSettings st)),
             gsTimeoutDuration = Some (timeoutDuration (gameSettings st)),
             gsTimeoutsTotal = Some (timeoutsTotal (gameSettings st)),
             gsTimeoutsPerHalf = Some (timeoutsPerHalf (gameSettings st)),
             gsAbbaStart = abbaStart st, gsStoppageActive = gameStoppageActive st,
             gsTimeoutState = Some (getTimeoutStateSnapshot st),
             gsHalftimeReasonResolved = halftimeReasonResolved st,
             gsScoreLogs = scoreLogs st, gsMatchStarted = Some (matchStarted st),
             gsTimestamp = now \<rparr>\<rparr>)"

text \<open>
  \<^verbatim>\<open>checkAndRestoreState\<close>, for an operator who answers the restore prompt with Cancel. The
  prompt is shown when the stored state has a timestamp less than 24 hours old
  (\<open>snapshotIsRecent\<close>, the condition of the function's \<^verbatim>\<open>if\<close>); \<open>refuseRestore\<close> is the branch
  taken when \<^verbatim>\<open>confirm\<close> returns false: \<^verbatim>\<open>resetGameState\<close>, then the assignments to
  \<^verbatim>\<open>gameSettings\<close>, \<^verbatim>\<open>abbaStart\<close>, \<^verbatim>\<open>gameStoppageActive\<close>, \<^verbatim>\<open>matchStarted\<close> and \<^verbatim>\<open>hardCapReached\<close>. The calls
  between them redraw the page; \<^verbatim>\<open>applyGameSettingsToUI\<close> also sets the default length of
  the two clocks, which is not a field of \<open>timer\<close>. The branch that restores
  (\<^verbatim>\<open>restoreGameState\<close>) is not embedded.
\<close>

definition snapshotIsRecent :: "snapshot \<Rightarrow> nat \<Rightarrow> bool" where
  "snapshotIsRecent gs now =
     (gsTimestamp gs \<noteq> 0 \<and> int now - int (gsTimestamp gs) < 24 * 60 * 60 * 1000)"

definition refuseRestore :: "session \<Rightarrow> nat \<Rightarrow> session" where
  "refuseRestore sess now =
     (let s1 = resetGameState sess now
      in s1\<lparr>theApp := (theApp s1)\<lparr>gameSettings := defaultSettings, abbaStart := ''M'',
                                   gameStoppageActive := False, matchStarted := False,
                                   hardCapReached := False\<rparr>\<rparr>)"

text \<open>
  What the store holds in the example: the auto-save of a match set up with 60 minutes, the
  halftime due after 60 minutes and start value F, a cached roster, and the primary clock
  running towards its end time.
\<close>

definition storedCustomMatch :: snapshot where
  "storedCustomMatch =
     gameState (autoSave \<lparr> theApp = lateHalftimeState\<lparr>abbaStart := ''F''\<rparr>,
                            gameState = freshGameState 0, teamsData = [],
                            primaryClock = \<lparr> endTime = None, isRunning = False,
                                             remainingTimeMs = None \<rparr> \<rparr> 5000)"

definition cachedRoster :: "(string \<times> string list) list" where
  "cachedRoster = [(''Red'', [''Alice'', ''Bob'']), (''Blue'', [''Carol'', ''Dave''])]"

definition runningClock :: timer where
  "runningClock = \<lparr> endTime = Some 3601000, isRunning = True, remainingTimeMs = None \<rparr>"

section \<open>Properties\<close>

subsection \<open>What the small steps leave alone\<close>

text \<open>
  The score cap, the halftime tracking, the clock trigger and the reassignment of a
  timeout touch few fields of the state; the rest is as before.
\<close>

lemma tsGet_simps [simp]:
  "tsGet \<lparr> tsA = a, tsB = b \<rparr> TeamA = a"
  "tsGet \<lparr> tsA = a, tsB = b \<rparr> TeamB = b"
  by (simp_all add: tsGet_def)

lemma checkForScoreCap_fields [simp]:
  "teamAScore (checkForScoreCap st) = teamAScore st"
  "teamBScore (checkForScoreCap st) = teamBScore st"
  "scoreLogs (checkForScoreCap st) = scoreLogs st"
  "gameSettings (checkForScoreCap st) = gameSettings st"
  "timeoutState (checkForScoreCap st) = timeoutState st"
  by (simp_all add: checkForScoreCap_def Let_def)

lemma checkForScoreCap_flags [simp]:
  "matchStarted (checkForScoreCap st) = matchStarted st"
  "halftimeTriggered (checkForScoreCap st) = halftimeTriggered st"
  "halftimeAutoSuppressed (checkForScoreCap st) = halftimeAutoSuppressed st"
  "halftimeReasonResolved (checkForScoreCap st) = halftimeReasonResolved st"
  "halftimePendingReason (checkForScoreCap st) = halftimePendingReason st"
  by (simp_all add: checkForScoreCap_def Let_def)

lemma updateHalftimeTracking_fields [simp]:
  "teamAScore (updateHalftimeTracking st) = teamAScore st"
  "teamBScore (updateHalftimeTracking st) = teamBScore st"
  "scoreLogs (updateHalftimeTracking st) = scoreLogs st"
  "gameSettings (updateHalftimeTracking st) = gameSettings st"
  "timeoutState (updateHalftimeTracking st) = timeoutState st"
  by (simp_all add: updateHalftimeTracking_def Let_def split: option.splits)

lemma recordSpecialEvent_frame [simp]:
  "gameSettings (snd (recordSpecialEvent st clk ty letter ex)) = gameSettings st"
  "timeoutState (snd (recordSpecialEvent st clk ty letter ex)) = timeoutState st"
  by (simp_all add: recordSpecialEvent_def Let_def)

lemma maybeTriggerHalftimeByTime_fields [simp]:
  "teamAScore (maybeTriggerHalftimeByTime st ms) = teamAScore st"
  "teamBScore (maybeTriggerHalftimeByTime st ms) = teamBScore st"
  "scoreLogs (maybeTriggerHalftimeByTime st ms) = scoreLogs st"
  "gameSettings (maybeTriggerHalftimeByTime st ms) = gameSettings st"
  "timeoutState (maybeTriggerHalftimeByTime st ms) = timeoutState st"
  by (simp_all add: maybeTriggerHalftimeByTime_def Let_def)

lemma adjustTimeoutCountsForEdit_fields [simp]:
  "scoreLogs (adjustTimeoutCountsForEdit st a b) = scoreLogs st"
  "gameSettings (adjustTimeoutCountsForEdit st a b) = gameSettings st"
  by (simp_all add: adjustTimeoutCountsForEdit_def Let_def split: option.splits)

lemma handleHalftime_settings [simp]:
  "gameSettings (snd (handleHalftime st clk r)) = gameSettings st"
  unfolding handleHalftime_def Let_def
  by (simp split: prod.splits add: recordSpecialEvent_def Let_def)

lemma handleTimeout_settings [simp]:
  "gameSettings (snd (handleTimeout st clk t)) = gameSettings st"
  by (simp add: handleTimeout_def Let_def)

subsection \<open>The ABBA sequence\<close>

text \<open>
  C2. With start value M the label function gives M, F, F, M, M, F, F at the indices
  0 to 6, and with start value NONE it gives the empty string at every index. The
  function takes the start value and the index only, so the team that scored has no part
  in the label.
\<close>

theorem abba_sequence:
  "map (computeAbbaForIndex ''M'') [0, 1, 2, 3, 4, 5, 6] =
     [''M'', ''F'', ''F'', ''M'', ''M'', ''F'', ''F'']
   \<and> (\<forall>i. computeAbbaForIndex ''NONE'' i = [])"
  by (simp add: computeAbbaForIndex_def)

subsection \<open>The counters and the log\<close>

lemma board_Nil [simp]: "board [] = []"
  by (simp add: board_def)

lemma board_Cons [simp]:
  "board (l # ls) = (if Type l = score then TeamLetter l # board ls else board ls)"
  by (simp add: board_def)

lemma board_append [simp]: "board (xs @ ys) = board xs @ board ys"
  by (simp add: board_def)

lemma tally_append [simp]:
  "tally (xs @ ys) = (fst (tally xs) + fst (tally ys), snd (tally xs) + snd (tally ys))"
  by (simp add: tally_def)

lemma tally_single [simp]:
  "tally [x] = ((if x = Some TeamA then 1 else 0), (if x = Some TeamB then 1 else 0))"
  by (simp add: tally_def)




text \<open>What the halftime machinery leaves alone: the counters and the score entries.\<close>

lemma recordSpecialEvent_fields [simp]:
  "teamAScore (snd (recordSpecialEvent st clk ty letter ex)) = teamAScore st"
  "teamBScore (snd (recordSpecialEvent st clk ty letter ex)) = teamBScore st"
  "ty \<noteq> score \<Longrightarrow>
   board (scoreLogs (snd (recordSpecialEvent st clk ty letter ex))) = board (scoreLogs st)"
  by (simp_all add: recordSpecialEvent_def Let_def createLogObject_def orElse_def)

lemma handleHalftime_fields [simp]:
  "teamAScore (snd (handleHalftime st clk r)) = teamAScore st"
  "teamBScore (snd (handleHalftime st clk r)) = teamBScore st"
  "board (scoreLogs (snd (handleHalftime st clk r))) = board (scoreLogs st)"
  unfolding handleHalftime_def Let_def
  by (simp_all split: prod.splits
      add: recordSpecialEvent_def Let_def createLogObject_def orElse_def)

lemma maybeTriggerHalftimeByScore_fields [simp]:
  "teamAScore (maybeTriggerHalftimeByScore st clk) = teamAScore st"
  "teamBScore (maybeTriggerHalftimeByScore st clk) = teamBScore st"
  "board (scoreLogs (maybeTriggerHalftimeByScore st clk)) = board (scoreLogs st)"
  by (simp_all add: maybeTriggerHalftimeByScore_def Let_def)

lemma attemptPendingHalftime_fields [simp]:
  "teamAScore (attemptPendingHalftime st clk) = teamAScore st"
  "teamBScore (attemptPendingHalftime st clk) = teamBScore st"
  "board (scoreLogs (attemptPendingHalftime st clk)) = board (scoreLogs st)"
  unfolding attemptPendingHalftime_def Let_def
  by (simp_all split: prod.splits)
     (metis handleHalftime_fields snd_conv)+








lemma closePopup_scoreInv [simp]: "scoreInv (closePopup st) = scoreInv st"
  by (simp add: closePopup_def scoreInv_def)














subsection \<open>Evaluating the example matches\<close>

lemmas eval_defs =
  run_def kickoff_def clockAt_def initialApp_def defaultSettings_def
  selectTeam_def startMatch_def trim_def isSpace_def handleMainTimerTick_def
  maybeTriggerHalftimeByTime_def recordSpecialEvent_def createLogObject_def orElse_def
  noOverrides_def handleTimeout_def usesPerHalfTimeouts_def tsGet_def tsSet_def Let_def

lemma twoTimeouts_eval:
  "matchStarted twoTimeouts" "\<not> gameStoppageActive twoTimeouts"
  "totalRemaining (tsGet (timeoutState twoTimeouts) TeamA) = 0"
  "length (scoreLogs twoTimeouts) = 3"
  by (simp_all add: twoTimeouts_def eval_defs)

subsection \<open>Timeouts without balance\<close>

text \<open>
  C7. A timeout call for a team whose \<^verbatim>\<open>totalRemaining\<close> is 0 (or, with per-half limiting,
  whose \<^verbatim>\<open>halfRemaining\<close> is 0) changes nothing: the state returned is the state given, so
  no entry is appended and no balance moves. In a running match without stoppage the
  notification is the one for no timeouts remaining (in total, or for this half).
\<close>

theorem timeout_rejected:
  "totalRemaining (tsGet (timeoutState st) t) \<le> 0
     \<or> (usesPerHalfTimeouts st \<and> halfRemaining (tsGet (timeoutState st) t) \<le> 0) \<Longrightarrow>
   snd (handleTimeout st clk t) = st
   \<and> (matchStarted st \<and> \<not> gameStoppageActive st \<longrightarrow>
        fst (handleTimeout st clk t) =
          (if totalRemaining (tsGet (timeoutState st) t) \<le> 0 then NoTimeoutsRemaining
           else NoTimeoutsRemainingThisHalf))"
  by (auto simp: handleTimeout_def Let_def)

theorem timeout_rejected_witness:
  "totalRemaining (tsGet (timeoutState twoTimeouts) TeamA) \<le> 0
   \<and> matchStarted twoTimeouts \<and> \<not> gameStoppageActive twoTimeouts
   \<and> handleTimeout twoTimeouts (clockAt 4000) TeamA = (NoTimeoutsRemaining, twoTimeouts)"
  using timeout_rejected [of twoTimeouts TeamA "clockAt 4000"] twoTimeouts_eval
  by (simp add: prod_eq_iff)

subsection \<open>The halftime reset of the per-half allotment\<close>

lemma handleHalftime_timeouts:
  "\<not> halftimeTriggered st \<Longrightarrow> matchStarted st \<Longrightarrow>
   fst (handleHalftime st clk reason) \<and>
   timeoutState (snd (handleHalftime st clk reason)) =
     \<lparr> tsA = halftimeReset st (tsA (timeoutState st)),
       tsB = halftimeReset st (tsB (timeoutState st)) \<rparr>"
  unfolding handleHalftime_def Let_def
  by (simp split: prod.splits add: recordSpecialEvent_def Let_def updateHalftimeTracking_def)

lemmas setup_defs =
  handleSetupSave_def clampNumber_def initializeTimeoutState_def createState_def
  clampCount_def handleAbbaChange_def maybeTriggerHalftimeByScore_def

lemma beforeHalftime_eval:
  "matchStarted beforeHalftime" "\<not> halftimeTriggered beforeHalftime"
  "gameSettings beforeHalftime = defaultSettings\<lparr>timeoutsTotal := 3, timeoutsPerHalf := 2\<rparr>"
  "timeoutState beforeHalftime =
     \<lparr> tsA = \<lparr> totalRemaining = 1, halfRemaining = 0 \<rparr>,
       tsB = \<lparr> totalRemaining = 3, halfRemaining = 2 \<rparr> \<rparr>"
  by (simp_all add: beforeHalftime_def shortHalves_def eval_defs setup_defs)

text \<open>
  C8. A halftime that is declared (match running, none declared yet) leaves every
  \<^verbatim>\<open>totalRemaining\<close> as it is and sets each team's \<^verbatim>\<open>halfRemaining\<close> to the minimum of
  \<^verbatim>\<open>timeoutsPerHalf\<close> and that team's \<^verbatim>\<open>totalRemaining\<close> when per-half limiting is on, and to its
  \<^verbatim>\<open>totalRemaining\<close> when it is off. The code takes the minimum with \<^verbatim>\<open>timeoutsTotal\<close> as
  well, which changes nothing when \<^verbatim>\<open>timeoutsPerHalf\<close> is at most \<^verbatim>\<open>timeoutsTotal\<close>: that is
  the third premise, and \<^verbatim>\<open>handleSetupSave\<close> keeps it in every state the operator can
  reach (\<open>reachable_bounds\<close> below).
\<close>

theorem halftime_resets_half_allotment:
  "\<not> halftimeTriggered st \<Longrightarrow> matchStarted st \<Longrightarrow>
   timeoutsPerHalf (gameSettings st) \<le> timeoutsTotal (gameSettings st) \<Longrightarrow>
   fst (handleHalftime st clk reason)
   \<and> halfRemaining (tsGet (timeoutState (snd (handleHalftime st clk reason))) t) =
       (if usesPerHalfTimeouts st
        then min (timeoutsPerHalf (gameSettings st)) (totalRemaining (tsGet (timeoutState st) t))
        else totalRemaining (tsGet (timeoutState st) t))
   \<and> totalRemaining (tsGet (timeoutState (snd (handleHalftime st clk reason))) t) =
       totalRemaining (tsGet (timeoutState st) t)"
  by (cases t) (simp_all add: handleHalftime_timeouts halftimeReset_def tsGet_def Let_def)

theorem halftime_resets_half_allotment_witness:
  "\<not> halftimeTriggered beforeHalftime \<and> matchStarted beforeHalftime
   \<and> timeoutsPerHalf (gameSettings beforeHalftime) \<le> timeoutsTotal (gameSettings beforeHalftime)
   \<and> usesPerHalfTimeouts beforeHalftime
   \<and> totalRemaining (tsGet (timeoutState beforeHalftime) TeamA) = 1
   \<and> halfRemaining (tsGet (timeoutState (snd (handleHalftime beforeHalftime (clockAt 4000) ''manual''))) TeamA) = 1
   \<and> halfRemaining (tsGet (timeoutState (snd (handleHalftime beforeHalftime (clockAt 4000) ''manual''))) TeamB) = 2"
  using halftime_resets_half_allotment [of beforeHalftime "clockAt 4000" "''manual''" TeamA]
        halftime_resets_half_allotment [of beforeHalftime "clockAt 4000" "''manual''" TeamB]
        beforeHalftime_eval
  by (simp add: usesPerHalfTimeouts_def tsGet_def defaultSettings_def)

subsection \<open>The clock trigger of halftime\<close>

lemma tick_sets_pending:
  "matchStarted st \<Longrightarrow> \<not> halftimeTriggered st \<Longrightarrow> \<not> halftimeAutoSuppressed st \<Longrightarrow>
   0 < matchDuration (gameSettings st) - halftimeDuration (gameSettings st) \<Longrightarrow>
   max 0 totalMs \<le> (matchDuration (gameSettings st) - halftimeDuration (gameSettings st)) * 60 * 1000 \<Longrightarrow>
   handleMainTimerTick st totalMs = st\<lparr>halftimePendingReason := Some ''clock''\<rparr>"
  by (cases "halftimePendingReason st = Some ''clock''")
     (simp_all add: handleMainTimerTick_def maybeTriggerHalftimeByTime_def Let_def)

lemma handleHalftime_declares:
  "matchStarted st \<Longrightarrow> \<not> halftimeTriggered st \<Longrightarrow> reason \<noteq> [] \<Longrightarrow>
   handleHalftime st clk reason =
     (True, st\<lparr>timeoutState := \<lparr> tsA = halftimeReset st (tsA (timeoutState st)),
                                   tsB = halftimeReset st (tsB (timeoutState st)) \<rparr>,
               halftimeReasonResolved := Some reason,
               scoreLogs := scoreLogs st @ [fst (recordSpecialEvent st clk halftime None (Some reason))],
               halftimeTriggered := True,
               currentHalftimeEditID := Some (DateNow clk),
               halftimePendingReason := None,
               halftimeAutoSuppressed := False\<rparr>)"
  unfolding handleHalftime_def Let_def
  by (simp add: recordSpecialEvent_def Let_def updateHalftimeTracking_def createLogObject_def
      orElse_def truthy_def split: prod.splits)


lemma run_Nil [simp]: "run st [] = st"
  by (simp add: run_def)

lemma run_Cons [simp]: "run st (a # acts) = run (step st a) acts"
  by (simp add: run_def)

lemma run_append [simp]: "run st (xs @ ys) = run (run st xs) ys"
  by (simp add: run_def)

lemma run_kickoff: "run initialApp kickoff = kickoffState"
  by (simp add: kickoffState_def eval_defs)

lemmas point_defs =
  handleSaveScore_def addNewScore_def checkForScoreCap_def maybeTriggerHalftimeByScore_def
  attemptPendingHalftime_def closePopup_def truthy_def HALFTIME_SCORE_TARGET_def
  handleHalftime_declares recordSpecialEvent_def createLogObject_def orElse_def
  noOverrides_def openPopup_def Let_def

lemma kickoffState_flags:
  "matchStarted kickoffState" "\<not> halftimeTriggered kickoffState"
  "\<not> halftimeAutoSuppressed kickoffState" "\<not> truthy (halftimeReasonResolved kickoffState)"
  "gameSettings kickoffState = defaultSettings"
  by (simp_all add: kickoffState_def initialApp_def truthy_def)

text \<open>
  C4, as the code has it. In a running match with no halftime declared or resolved,
  the auto-suppression flag clear and a halftime due before the end of the match
  (\<^verbatim>\<open>matchDuration - halftimeDuration > 0\<close>), a tick of the primary clock at or below the
  threshold declares nothing: it sets the pending reason \<^verbatim>\<open>'clock'\<close> and changes nothing else.
  The next point then appends its score entry and a halftime entry; the reason is
  \<^verbatim>\<open>'score'\<close> when the leading score has reached the target of 8 with that point, and
  \<^verbatim>\<open>'clock'\<close> otherwise, and the pending reason is cleared either way.
\<close>

theorem clock_trigger_deferred:
  assumes "matchStarted st" and "\<not> halftimeTriggered st" and "\<not> halftimeAutoSuppressed st"
    and "\<not> truthy (halftimeReasonResolved st)"
    and "0 < matchDuration (gameSettings st) - halftimeDuration (gameSettings st)"
    and "max 0 totalMs \<le> (matchDuration (gameSettings st) - halftimeDuration (gameSettings st)) * 60 * 1000"
  shows "handleMainTimerTick st totalMs = st\<lparr>halftimePendingReason := Some ''clock''\<rparr>
    \<and> (let st2 = addNewScore (handleMainTimerTick st totalMs) clk clkH t scorer assist;
            reason = (if HALFTIME_SCORE_TARGET \<le> max (teamAScore st2) (teamBScore st2)
                      then ''score'' else ''clock'')
        in halftimeTriggered st2 \<and> halftimePendingReason st2 = None
           \<and> halftimeReasonResolved st2 = Some reason
           \<and> map Type (scoreLogs st2) = map Type (scoreLogs st) @ [score, halftime]
           \<and> HalftimeReason (last (scoreLogs st2)) = Some reason)"
proof -
  have tick: "handleMainTimerTick st totalMs = st\<lparr>halftimePendingReason := Some ''clock''\<rparr>"
    using assms by (simp add: tick_sets_pending)
  define st1 where "st1 = checkForScoreCap
     ((if t = TeamA then (st\<lparr>halftimePendingReason := Some ''clock''\<rparr>)\<lparr>teamAScore := teamAScore st + 1\<rparr>
       else (st\<lparr>halftimePendingReason := Some ''clock''\<rparr>)\<lparr>teamBScore := teamBScore st + 1\<rparr>)
      \<lparr>scoreLogs := scoreLogs st @
         [createLogObject (if t = TeamA then (st\<lparr>halftimePendingReason := Some ''clock''\<rparr>)\<lparr>teamAScore := teamAScore st + 1\<rparr>
       else (st\<lparr>halftimePendingReason := Some ''clock''\<rparr>)\<lparr>teamBScore := teamBScore st + 1\<rparr>) clk (DateNow clk) (Some t) scorer assist noOverrides]\<rparr>)"
  have st1: "matchStarted st1" "\<not> halftimeTriggered st1" "\<not> halftimeAutoSuppressed st1"
    "\<not> truthy (halftimeReasonResolved st1)" "halftimePendingReason st1 = Some ''clock''"
    "map Type (scoreLogs st1) = map Type (scoreLogs st) @ [score]"
    using assms by (simp_all add: st1_def createLogObject_def noOverrides_def orElse_def Let_def)
  have add: "addNewScore (st\<lparr>halftimePendingReason := Some ''clock''\<rparr>) clk clkH t scorer assist =
    closePopup (attemptPendingHalftime (maybeTriggerHalftimeByScore st1 clkH) clkH)"
    by (simp add: addNewScore_def Let_def st1_def)
  show ?thesis
  proof (cases "HALFTIME_SCORE_TARGET \<le> max (teamAScore st1) (teamBScore st1)")
    case True
    with st1 have m: "maybeTriggerHalftimeByScore st1 clkH = snd (handleHalftime st1 clkH ''score'')"
      by (simp add: maybeTriggerHalftimeByScore_def Let_def)
    show ?thesis using True st1
      by (simp add: tick add m handleHalftime_declares attemptPendingHalftime_def closePopup_def
          Let_def recordSpecialEvent_def createLogObject_def orElse_def)
  next
    case False
    with st1 have m: "maybeTriggerHalftimeByScore st1 clkH = st1"
      by (simp add: maybeTriggerHalftimeByScore_def Let_def)
    show ?thesis using False st1
      by (simp add: tick add m handleHalftime_declares attemptPendingHalftime_def closePopup_def
          Let_def recordSpecialEvent_def createLogObject_def orElse_def)
  qed
qed

theorem clock_trigger_deferred_witness:
  "matchStarted kickoffState \<and> \<not> halftimeTriggered kickoffState
   \<and> \<not> halftimeAutoSuppressed kickoffState \<and> \<not> truthy (halftimeReasonResolved kickoffState)
   \<and> (0::int) < matchDuration (gameSettings kickoffState) - halftimeDuration (gameSettings kickoffState)
   \<and> max 0 2700000 \<le> (matchDuration (gameSettings kickoffState)
                          - halftimeDuration (gameSettings kickoffState)) * 60 * 1000
   \<and> handleMainTimerTick kickoffState 2700000 = kickoffState\<lparr>halftimePendingReason := Some ''clock''\<rparr>
   \<and> halftimeTriggered
        (addNewScore (handleMainTimerTick kickoffState 2700000) (clockAt 5000) (clockAt 5000)
           TeamA ''Alice'' ''Bob'')"
proof -
  have h: "(0::int) < matchDuration (gameSettings kickoffState) - halftimeDuration (gameSettings kickoffState)"
    "max 0 2700000 \<le> (matchDuration (gameSettings kickoffState)
                          - halftimeDuration (gameSettings kickoffState)) * 60 * 1000"
    by (simp_all add: kickoffState_flags defaultSettings_def)
  note t = clock_trigger_deferred [OF kickoffState_flags(1-4) h,
      of "clockAt 5000" "clockAt 5000" TeamA "''Alice''" "''Bob''"]
  from t [THEN conjunct2] have "halftimeTriggered
        (addNewScore (handleMainTimerTick kickoffState 2700000) (clockAt 5000) (clockAt 5000)
           TeamA ''Alice'' ''Bob'')"
    by (simp add: Let_def)
  with t [THEN conjunct1] kickoffState_flags(1-4) h show ?thesis by blast
qed


text \<open>
  The claim as stated fails where the code's other gates close: with the halftime due
  only at the end of the match (threshold 0) the clock at 0:00 is at the threshold and
  no halftime is declared, yet no pending reason is set and the next point declares no
  halftime.
\<close>

lemma setup_untilTheEnd:
  "step initialApp (SaveSetup untilTheEnd (clockAt 500) 3600000) =
     initialApp\<lparr>gameSettings := defaultSettings\<lparr>matchDuration := 60, halftimeDuration := 60\<rparr>\<rparr>"
  by (simp add: untilTheEnd_def initialApp_def defaultSettings_def setup_defs
      usesPerHalfTimeouts_def maybeTriggerHalftimeByTime_def Let_def)

lemma kickoff_after_setup:
  "run (initialApp\<lparr>gameSettings := defaultSettings\<lparr>matchDuration := 60, halftimeDuration := 60\<rparr>\<rparr>)
     [SelectTeam TeamA ''Red'', SelectTeam TeamB ''Blue'', StartMatch (clockAt 1000) 3600000]
   = lateHalftimeState"
  by (simp add: lateHalftimeState_def kickoffState_def initialApp_def defaultSettings_def
      clockAt_def selectTeam_def startMatch_def trim_def isSpace_def handleMainTimerTick_def
      maybeTriggerHalftimeByTime_def recordSpecialEvent_def createLogObject_def orElse_def Let_def)

lemma noClockHalftime_state: "noClockHalftime = lateHalftimeState"
  unfolding noClockHalftime_def
  by (subst run_Cons) (simp only: setup_untilTheEnd kickoff_after_setup)

lemma lateHalftimeState_tick: "handleMainTimerTick lateHalftimeState 0 = lateHalftimeState"
  by (simp add: lateHalftimeState_def kickoffState_def initialApp_def defaultSettings_def
      handleMainTimerTick_def maybeTriggerHalftimeByTime_def Let_def)

lemma lateHalftimeState_point:
  "\<not> halftimeTriggered
      (run lateHalftimeState
         [AddScoreButton TeamA, SaveScore (clockAt 5000) (clockAt 5000) ''Alice'' ''Bob''])"
  by (simp add: lateHalftimeState_def kickoffState_def initialApp_def defaultSettings_def
      clockAt_def point_defs)

theorem clock_trigger_counterexample:
  "matchStarted noClockHalftime \<and> \<not> halftimeTriggered noClockHalftime
   \<and> (0::int) \<le> (matchDuration (gameSettings noClockHalftime)
                    - halftimeDuration (gameSettings noClockHalftime)) * 60 * 1000
   \<and> halftimePendingReason (handleMainTimerTick noClockHalftime 0) = None
   \<and> \<not> halftimeTriggered
        (run noClockHalftime
           [TimerTick 0, AddScoreButton TeamA, SaveScore (clockAt 5000) (clockAt 5000) ''Alice'' ''Bob''])"
proof -
  have "run noClockHalftime
           [TimerTick 0, AddScoreButton TeamA, SaveScore (clockAt 5000) (clockAt 5000) ''Alice'' ''Bob'']
      = run lateHalftimeState
           [AddScoreButton TeamA, SaveScore (clockAt 5000) (clockAt 5000) ''Alice'' ''Bob'']"
    by (subst run_Cons) (simp only: noClockHalftime_state step.simps lateHalftimeState_tick)
  moreover have "matchStarted lateHalftimeState" "\<not> halftimeTriggered lateHalftimeState"
    "matchDuration (gameSettings lateHalftimeState) = 60"
    "halftimeDuration (gameSettings lateHalftimeState) = 60"
    "halftimePendingReason lateHalftimeState = None"
    by (simp_all add: lateHalftimeState_def kickoffState_def initialApp_def defaultSettings_def)
  ultimately show ?thesis
    using lateHalftimeState_point by (simp add: noClockHalftime_state lateHalftimeState_tick)
qed

text \<open>
  The other gates of the clock trigger: before the match has started, with the halftime
  due only at the end of the match, or while the clock is at or below the threshold with
  the suppression flag set, a tick changes nothing and sets no pending reason.
\<close>

lemma tick_without_pending:
  "\<not> matchStarted st
     \<or> matchDuration (gameSettings st) - halftimeDuration (gameSettings st) \<le> 0
     \<or> (halftimeAutoSuppressed st
         \<and> max 0 totalMs \<le> (matchDuration (gameSettings st) - halftimeDuration (gameSettings st))
                              * 60 * 1000) \<Longrightarrow>
   handleMainTimerTick st totalMs = st"
proof (elim disjE)
  assume "\<not> matchStarted st"
  then show ?thesis
    by (simp add: handleMainTimerTick_def maybeTriggerHalftimeByTime_def)
next
  assume "matchDuration (gameSettings st) - halftimeDuration (gameSettings st) \<le> 0"
  then show ?thesis
    by (simp add: handleMainTimerTick_def maybeTriggerHalftimeByTime_def Let_def)
next
  define thresholdMs where
    "thresholdMs = max 0 (matchDuration (gameSettings st) - halftimeDuration (gameSettings st))
                     * 60 * 1000"
  assume a: "halftimeAutoSuppressed st
     \<and> max 0 totalMs \<le> (matchDuration (gameSettings st) - halftimeDuration (gameSettings st))
                          * 60 * 1000"
  then have "max 0 totalMs \<le> thresholdMs"
    unfolding thresholdMs_def by (cases "0 \<le> matchDuration (gameSettings st)
      - halftimeDuration (gameSettings st)") (simp_all add: max_def)
  then have "\<not> thresholdMs < max 0 totalMs" by (simp only: not_less)
  with a show ?thesis
    unfolding handleMainTimerTick_def maybeTriggerHalftimeByTime_def Let_def
      thresholdMs_def [symmetric]
    by simp
qed

subsection \<open>The ids of the entries\<close>

lemma pending_popup:
  "run kickoffState [TimerTick 2700000, AddScoreButton TeamA] =
     kickoffState\<lparr>halftimePendingReason := Some ''clock'', popupTeam := Some TeamA\<rparr>"
  by (simp add: kickoffState_def initialApp_def defaultSettings_def
     handleMainTimerTick_def maybeTriggerHalftimeByTime_def openPopup_def Let_def)

lemma point_with_halftime:
  "map (\<lambda>l. (scoreID l, Type l, HalftimeReason l))
     (scoreLogs (step (kickoffState\<lparr>halftimePendingReason := Some ''clock'', popupTeam := Some TeamA\<rparr>)
                      (SaveScore (clockAt 5000) (clockAt 5000) ''Alice'' ''Bob''))) =
     [(1000, matchstart, None), (5000, score, None), (5000, halftime, Some ''clock'')]"
  by (simp add: kickoffState_def initialApp_def defaultSettings_def clockAt_def point_defs)

lemma point_lookup:
  "map_option Type
     (getScoreLog
        (scoreLogs (step (kickoffState\<lparr>halftimePendingReason := Some ''clock'', popupTeam := Some TeamA\<rparr>)
                         (SaveScore (clockAt 5000) (clockAt 5000) ''Alice'' ''Bob''))) 5000) =
     Some score"
  by (simp add: kickoffState_def initialApp_def defaultSettings_def clockAt_def point_defs
      getScoreLog_def)

lemma sameMillisecond_unfold:
  "sameMillisecond =
     step (run kickoffState [TimerTick 2700000, AddScoreButton TeamA])
          (SaveScore (clockAt 5000) (clockAt 5000) ''Alice'' ''Bob'')"
  by (simp add: sameMillisecond_def run_kickoff)

text \<open>
  C9 at a failing input. The point that brings the clock halftime and the halftime entry
  are created in one run of the handler; when the clock answers the same millisecond to
  both, the two entries of the log carry the same id, and the lookup by that id gives the
  score entry: the halftime entry is out of reach of \<^verbatim>\<open>getScoreLog\<close>.
\<close>

theorem ids_collide_within_a_millisecond:
  "map (\<lambda>l. (scoreID l, Type l, HalftimeReason l)) (scoreLogs sameMillisecond) =
     [(1000, matchstart, None), (5000, score, None), (5000, halftime, Some ''clock'')]
   \<and> map_option Type (getScoreLog (scoreLogs sameMillisecond) 5000) = Some score"
  by (simp only: sameMillisecond_unfold pending_popup point_with_halftime point_lookup)

subsection \<open>Conservation of the timeout balance\<close>

lemma timeoutCount_append [simp]:
  "timeoutCount (xs @ ys) t = timeoutCount xs t + timeoutCount ys t"
  by (simp add: timeoutCount_def)

lemma timeoutCount_Nil [simp]: "timeoutCount [] t = 0"
  by (simp add: timeoutCount_def)

lemma timeoutCount_Cons [simp]:
  "timeoutCount (l # ls) t =
     (if Type l = timeout \<and> TeamLetter l = Some t then 1 else 0) + timeoutCount ls t"
  by (simp add: timeoutCount_def)

lemma handleHalftime_totals [simp]:
  "totalRemaining (tsGet (timeoutState (snd (handleHalftime st clk r))) u) =
     totalRemaining (tsGet (timeoutState st) u)"
  "timeoutCount (scoreLogs (snd (handleHalftime st clk r))) u = timeoutCount (scoreLogs st) u"
  unfolding handleHalftime_def Let_def
  by (cases u; simp split: prod.splits
      add: recordSpecialEvent_def Let_def createLogObject_def orElse_def
           updateHalftimeTracking_def halftimeReset_def tsGet_def)+

lemma maybeTriggerHalftimeByScore_totals [simp]:
  "totalRemaining (tsGet (timeoutState (maybeTriggerHalftimeByScore st clk)) u) =
     totalRemaining (tsGet (timeoutState st) u)"
  "timeoutCount (scoreLogs (maybeTriggerHalftimeByScore st clk)) u = timeoutCount (scoreLogs st) u"
  by (simp_all add: maybeTriggerHalftimeByScore_def Let_def)

lemma rebuild_totals [simp]:
  "totalRemaining (tsGet (timeoutState (rebuildTableAndCounters st clk)) u) =
     totalRemaining (tsGet (timeoutState st) u)"
  "timeoutCount (scoreLogs (rebuildTableAndCounters st clk)) u = timeoutCount (scoreLogs st) u"
  by (simp_all add: rebuildTableAndCounters_def Let_def)

lemma timeoutSum_rebuild [simp]:
  "timeoutSum (rebuildTableAndCounters st clk) u = timeoutSum st u"
  by (simp add: timeoutSum_def)

lemma handleTimeout_sum:
  "fst (handleTimeout st clk t) = TimeoutRecorded \<Longrightarrow>
   timeoutSum (snd (handleTimeout st clk t)) u = timeoutSum st u"
  by (cases t; cases u)
     (auto simp: handleTimeout_def Let_def timeoutSum_def recordSpecialEvent_def
        createLogObject_def orElse_def tsGet_def tsSet_def split: if_splits)


lemma updateScoreLog_count:
  "getScoreLog logs sid = Some e \<Longrightarrow>
   \<exists>logs'. updateScoreLog logs sid f = Some logs' \<and>
     int (timeoutCount logs' u) =
       int (timeoutCount logs u)
       - (if Type e = timeout \<and> TeamLetter e = Some u then 1 else 0)
       + (if Type (f e) = timeout \<and> TeamLetter (f e) = Some u then 1 else 0)"
proof (induction logs)
  case Nil
  then show ?case by (simp add: getScoreLog_def)
next
  case (Cons l ls)
  show ?case
  proof (cases "scoreID l = sid")
    case True
    with Cons.prems have "l = e" by (simp add: getScoreLog_def)
    with True show ?thesis by simp
  next
    case False
    with Cons.prems have "getScoreLog ls sid = Some e" by (simp add: getScoreLog_def)
    from Cons.IH [OF this] obtain ls' where
      "updateScoreLog ls sid f = Some ls'"
      "int (timeoutCount ls' u) =
         int (timeoutCount ls u)
         - (if Type e = timeout \<and> TeamLetter e = Some u then 1 else 0)
         + (if Type (f e) = timeout \<and> TeamLetter (f e) = Some u then 1 else 0)"
      by blast
    with False show ?thesis by simp
  qed
qed

lemma adjust_totals:
  "old \<noteq> new \<Longrightarrow>
   0 \<le> totalRemaining (tsGet (timeoutState st) old) \<Longrightarrow>
   totalRemaining (tsGet (timeoutState st) old) < timeoutsTotal (gameSettings st) \<Longrightarrow>
   1 \<le> totalRemaining (tsGet (timeoutState st) new) \<Longrightarrow>
   totalRemaining (tsGet (timeoutState st) new) \<le> timeoutsTotal (gameSettings st) \<Longrightarrow>
   totalRemaining (tsGet (timeoutState (adjustTimeoutCountsForEdit st (Some old) (Some new))) u) =
     totalRemaining (tsGet (timeoutState st) u)
     + (if u = old then 1 else 0) - (if u = new then 1 else 0)"
  by (cases old; cases new; cases u)
     (simp_all add: adjustTimeoutCountsForEdit_def adjustTeam_def normalize_def Let_def
        tsGet_def tsSet_def)

lemma reassign_sum:
  assumes "reassignKeepsBalance st new"
  shows "timeoutSum (handleTimeoutEditSave st clkH (Some new)) u = timeoutSum st u"
proof -
  from assms obtain sid e old where
    sid: "currentTimeoutEditID st = Some sid" and
    e: "getScoreLog (scoreLogs st) sid = Some e" and
    ty: "Type e = timeout" and
    nm: "trim (if new = TeamA then teamAName st else teamBName st) \<noteq> []" and
    old: "TeamLetter e = Some old" "old \<noteq> new" and
    bal: "0 \<le> totalRemaining (tsGet (timeoutState st) old)"
      "totalRemaining (tsGet (timeoutState st) old) < timeoutsTotal (gameSettings st)"
      "1 \<le> totalRemaining (tsGet (timeoutState st) new)"
      "totalRemaining (tsGet (timeoutState st) new) \<le> timeoutsTotal (gameSettings st)"
    by (auto simp: reassignKeepsBalance_def split: option.splits)
  define name where "name = (if new = TeamA then trim (teamAName st) else trim (teamBName st))"
  define f where "f = (\<lambda>l::logEntry. l\<lparr>TeamLetter := Some new, Team := name, TeamName := name\<rparr>)"
  from updateScoreLog_count [OF e, of f u] obtain logs' where
    up: "updateScoreLog (scoreLogs st) sid f = Some logs'" and
    cnt: "int (timeoutCount logs' u) =
       int (timeoutCount (scoreLogs st) u) - (if u = old then 1 else 0) + (if u = new then 1 else 0)"
    using ty old by (auto simp: f_def)
  have res: "handleTimeoutEditSave st clkH (Some new) =
      rebuildTableAndCounters
        (closeTimeoutEditPopup
           (adjustTimeoutCountsForEdit (st\<lparr>scoreLogs := logs'\<rparr>) (Some old) (Some new))) clkH"
    using sid e ty nm old up
    by (auto simp: handleTimeoutEditSave_def Let_def name_def f_def)
  have "totalRemaining (tsGet (timeoutState
            (adjustTimeoutCountsForEdit (st\<lparr>scoreLogs := logs'\<rparr>) (Some old) (Some new))) u) =
     totalRemaining (tsGet (timeoutState st) u) + (if u = old then 1 else 0) - (if u = new then 1 else 0)"
    using adjust_totals [of old new "st\<lparr>scoreLogs := logs'\<rparr>" u] old bal by simp
  with cnt show ?thesis
    by (simp add: res timeoutSum_def closeTimeoutEditPopup_def)
qed

text \<open>Removing an entry: the count of timeout entries, and the two deletions.\<close>

lemma removeScoreLog_None:
  "getScoreLog logs sid = None \<Longrightarrow> removeScoreLog logs sid = None"
  by (induction logs) (auto simp: getScoreLog_def split: if_splits)

lemma removeScoreLog_count:
  "getScoreLog logs sid = Some e \<Longrightarrow>
   \<exists>logs'. removeScoreLog logs sid = Some (e, logs') \<and>
     int (timeoutCount logs' u) =
       int (timeoutCount logs u) - (if Type e = timeout \<and> TeamLetter e = Some u then 1 else 0)"
proof (induction logs)
  case Nil
  then show ?case by (simp add: getScoreLog_def)
next
  case (Cons l ls)
  show ?case
  proof (cases "scoreID l = sid")
    case True
    with Cons.prems have "l = e" by (simp add: getScoreLog_def)
    with True show ?thesis by simp
  next
    case False
    with Cons.prems have "getScoreLog ls sid = Some e" by (simp add: getScoreLog_def)
    from Cons.IH [OF this] obtain ls' where
      "removeScoreLog ls sid = Some (e, ls')"
      "int (timeoutCount ls' u) =
         int (timeoutCount ls u) - (if Type e = timeout \<and> TeamLetter e = Some u then 1 else 0)"
      by blast
    with False show ?thesis by simp
  qed
qed

lemma removal_keeps_count:
  "\<not> removesTimeoutOf logs (Some sid) u \<Longrightarrow> removeScoreLog logs sid = Some (r, logs') \<Longrightarrow>
   timeoutCount logs' u = timeoutCount logs u"
proof (cases "getScoreLog logs sid")
  case None
  then show "removeScoreLog logs sid = Some (r, logs') \<Longrightarrow> ?thesis"
    by (simp add: removeScoreLog_None)
next
  case (Some e)
  assume "\<not> removesTimeoutOf logs (Some sid) u" "removeScoreLog logs sid = Some (r, logs')"
  with Some removeScoreLog_count [OF Some, of u] show ?thesis
    by (auto simp: removesTimeoutOf_def)
qed

lemma delete_sum:
  "\<not> removesTimeoutOf (scoreLogs st) (currentEditID st) u \<Longrightarrow>
   timeoutSum (handleDeleteScore st clkH) u = timeoutSum st u"
  by (auto simp: handleDeleteScore_def closePopup_def timeoutSum_def split: option.splits
      dest: removal_keeps_count)

lemma halftimeDelete_sum:
  "\<not> removesTimeoutOf (scoreLogs st) (currentHalftimeEditID st) u \<Longrightarrow>
   timeoutSum (handleHalftimeDelete st clkH) u = timeoutSum st u"
  by (auto simp: handleHalftimeDelete_def closeHalftimeEditPopup_def timeoutSum_def Let_def
      split: option.splits dest: removal_keeps_count)

lemma delete_totals:
  "totalRemaining (tsGet (timeoutState (handleDeleteScore st clkH)) u) =
     totalRemaining (tsGet (timeoutState st) u)"
  "totalRemaining (tsGet (timeoutState (handleHalftimeDelete st clkH)) u) =
     totalRemaining (tsGet (timeoutState st) u)"
  by (simp_all add: handleDeleteScore_def handleHalftimeDelete_def closePopup_def
      closeHalftimeEditPopup_def Let_def split: option.splits)

lemmas base_defs = kickoffState_def initialApp_def defaultSettings_def clockAt_def timeoutEntry_def

lemmas timeout_defs =
  handleTimeout_def usesPerHalfTimeouts_def tsGet_def tsSet_def recordSpecialEvent_def
  createLogObject_def orElse_def Let_def hasRow_def getLogType_def openTimeoutEditPopup_def
  getScoreLog_def

lemmas reassign_defs =
  handleTimeoutEditSave_def getScoreLog_def trim_def isSpace_def adjustTimeoutCountsForEdit_def
  adjustTeam_def normalize_def usesPerHalfTimeouts_def tsSet_def
  closeTimeoutEditPopup_def Let_def

text \<open>The example states, evaluated.\<close>

lemma oneTimeoutOpen_state: "oneTimeoutOpen = oneTimeoutOpenState"
  unfolding oneTimeoutOpen_def run_append run_kickoff
  by (simp add: oneTimeoutOpenState_def base_defs timeout_defs)

lemma threeTimeouts_state: "threeTimeouts = threeTimeoutsState"
  unfolding threeTimeouts_def run_append run_kickoff
  by (simp add: threeTimeoutsState_def base_defs timeout_defs)

lemma kickoffState_timeout:
  "fst (handleTimeout kickoffState (clockAt 2000) TeamA) = TimeoutRecorded"
  by (simp add: base_defs handleTimeout_def usesPerHalfTimeouts_def Let_def)

lemma oneTimeoutOpen_reassignable: "reassignKeepsBalance oneTimeoutOpen TeamB"
  unfolding oneTimeoutOpen_state
  by (simp add: oneTimeoutOpenState_def base_defs reassignKeepsBalance_def getScoreLog_def
      trim_def isSpace_def)

lemma timeout_then_popup:
  "run kickoffState [TimeoutButton (clockAt 2000) TeamA, AddScoreButton TeamA] =
     kickoffState
       \<lparr> scoreLogs := scoreLogs kickoffState @ [timeoutEntry 2000 TeamA],
         popupTeam := Some TeamA,
         timeoutState := \<lparr> tsA = \<lparr> totalRemaining = 1, halfRemaining = 1 \<rparr>,
                           tsB = \<lparr> totalRemaining = 2, halfRemaining = 2 \<rparr> \<rparr> \<rparr>"
  by (simp add: base_defs timeout_defs openPopup_def)

lemma point_after_timeout:
  "run (kickoffState
       \<lparr> scoreLogs := scoreLogs kickoffState @ [timeoutEntry 2000 TeamA],
         popupTeam := Some TeamA,
         timeoutState := \<lparr> tsA = \<lparr> totalRemaining = 1, halfRemaining = 1 \<rparr>,
                           tsB = \<lparr> totalRemaining = 2, halfRemaining = 2 \<rparr> \<rparr> \<rparr>)
     [SaveScore (clockAt 5000) (clockAt 6000) ''Alice'' ''Bob'', EditScoreGear 5000] =
   pointAfterTimeoutState"
  by (simp add: pointAfterTimeoutState_def scoreEntry_def base_defs point_defs hasRow_def
      getLogType_def editScore_def getScoreLog_def)

lemma pointAfterTimeout_state: "pointAfterTimeout = pointAfterTimeoutState"
proof -
  have "pointAfterTimeout =
      run (run kickoffState [TimeoutButton (clockAt 2000) TeamA, AddScoreButton TeamA])
        [SaveScore (clockAt 5000) (clockAt 6000) ''Alice'' ''Bob'', EditScoreGear 5000]"
    unfolding pointAfterTimeout_def run_append run_kickoff by (simp only: run_Cons run_Nil)
  then show ?thesis by (simp only: timeout_then_popup point_after_timeout)
qed

lemma pointAfterTimeout_deleted:
  "map Type (scoreLogs (handleDeleteScore pointAfterTimeoutState (clockAt 7000))) =
     [matchstart, timeout]"
  apply (simp add: pointAfterTimeoutState_def scoreEntry_def base_defs handleDeleteScore_def
      closePopup_def)
  apply (simp add: rebuildTableAndCounters_def Let_def countLog_def isScoreLog_def getLogType_def)
  apply (simp add: checkForScoreCap_def Let_def)
  apply (simp add: updateHalftimeTracking_def Let_def)
  apply (simp add: maybeTriggerHalftimeByScore_def truthy_def HALFTIME_SCORE_TARGET_def Let_def)
  done

lemma pointAfterTimeout_eval:
  "\<not> removesTimeoutOf (scoreLogs pointAfterTimeout) (currentEditID pointAfterTimeout) TeamA"
  "map Type (scoreLogs pointAfterTimeout) = [matchstart, timeout, score]"
  "map Type (scoreLogs (handleDeleteScore pointAfterTimeout (clockAt 7000))) = [matchstart, timeout]"
  unfolding pointAfterTimeout_state pointAfterTimeout_deleted
  by (simp_all add: pointAfterTimeoutState_def scoreEntry_def base_defs removesTimeoutOf_def
      getScoreLog_def)

lemma halftimeAfterTimeout_state: "halftimeAfterTimeout = halftimeAfterTimeoutState"
  unfolding halftimeAfterTimeout_def run_append run_kickoff
  by (simp add: halftimeAfterTimeoutState_def halftimeEntry_def base_defs timeout_defs
      handleHalftime_declares halftimeReset_def)

lemma halftimeAfterTimeout_deleted:
  "map Type (scoreLogs (handleHalftimeDelete halftimeAfterTimeoutState (clockAt 7000))) =
     [matchstart, timeout]"
  apply (simp add: halftimeAfterTimeoutState_def halftimeEntry_def base_defs
      handleHalftimeDelete_def closeHalftimeEditPopup_def Let_def)
  apply (simp add: rebuildTableAndCounters_def Let_def countLog_def isScoreLog_def getLogType_def)
  apply (simp add: checkForScoreCap_def Let_def)
  apply (simp add: updateHalftimeTracking_def Let_def)
  apply (simp add: maybeTriggerHalftimeByScore_def truthy_def HALFTIME_SCORE_TARGET_def Let_def)
  done

lemma halftimeAfterTimeout_eval:
  "\<not> removesTimeoutOf (scoreLogs halftimeAfterTimeout) (currentHalftimeEditID halftimeAfterTimeout) TeamA"
  "map Type (scoreLogs halftimeAfterTimeout) = [matchstart, timeout, halftime]"
  "map Type (scoreLogs (handleHalftimeDelete halftimeAfterTimeout (clockAt 7000))) = [matchstart, timeout]"
  unfolding halftimeAfterTimeout_state halftimeAfterTimeout_deleted
  by (simp_all add: halftimeAfterTimeoutState_def halftimeEntry_def base_defs removesTimeoutOf_def
      getScoreLog_def)

lemma timeoutB_then_popup:
  "run kickoffState [TimeoutButton (clockAt 2000) TeamB, AddScoreButton TeamA] =
     kickoffState
       \<lparr> scoreLogs := scoreLogs kickoffState @ [timeoutEntry 2000 TeamB],
         popupTeam := Some TeamA,
         timeoutState := \<lparr> tsA = \<lparr> totalRemaining = 2, halfRemaining = 2 \<rparr>,
                           tsB = \<lparr> totalRemaining = 1, halfRemaining = 1 \<rparr> \<rparr> \<rparr>"
  by (simp add: base_defs timeout_defs openPopup_def)

lemma point_under_timeout_id:
  "run (kickoffState
       \<lparr> scoreLogs := scoreLogs kickoffState @ [timeoutEntry 2000 TeamB],
         popupTeam := Some TeamA,
         timeoutState := \<lparr> tsA = \<lparr> totalRemaining = 2, halfRemaining = 2 \<rparr>,
                           tsB = \<lparr> totalRemaining = 1, halfRemaining = 1 \<rparr> \<rparr> \<rparr>)
     [SaveScore (clockAt 2000) (clockAt 2000) ''Alice'' ''Bob'', EditScoreGear 2000] =
   timeoutUnderScoreIdState"
  by (simp add: timeoutUnderScoreIdState_def scoreEntry_def base_defs point_defs hasRow_def
      getLogType_def editScore_def getScoreLog_def)

lemma timeoutUnderScoreId_state: "timeoutUnderScoreId = timeoutUnderScoreIdState"
proof -
  have "timeoutUnderScoreId =
      run (run kickoffState [TimeoutButton (clockAt 2000) TeamB, AddScoreButton TeamA])
        [SaveScore (clockAt 2000) (clockAt 2000) ''Alice'' ''Bob'', EditScoreGear 2000]"
    unfolding timeoutUnderScoreId_def run_append run_kickoff by (simp only: run_Cons run_Nil)
  then show ?thesis by (simp only: timeoutB_then_popup point_under_timeout_id)
qed

lemma timeoutUnderScoreId_deleted:
  "step timeoutUnderScoreIdState (DeleteScore (clockAt 3000)) =
     kickoffState
       \<lparr> scoreLogs := scoreLogs kickoffState @ [scoreEntry 2000],
         popupTeam := Some TeamB,
         timeoutState := \<lparr> tsA = \<lparr> totalRemaining = 2, halfRemaining = 2 \<rparr>,
                           tsB = \<lparr> totalRemaining = 1, halfRemaining = 1 \<rparr> \<rparr>,
         teamAScore := 1 \<rparr>"
  apply (simp add: timeoutUnderScoreIdState_def scoreEntry_def base_defs handleDeleteScore_def
      closePopup_def)
  apply (simp add: rebuildTableAndCounters_def Let_def countLog_def isScoreLog_def getLogType_def
      getTeamLetterFromLog_def)
  apply (simp add: checkForScoreCap_def Let_def)
  apply (simp add: updateHalftimeTracking_def Let_def)
  apply (simp add: maybeTriggerHalftimeByScore_def truthy_def HALFTIME_SCORE_TARGET_def Let_def)
  done

text \<open>
  C3, as the code has it. The sum of \<^verbatim>\<open>totalRemaining\<close> and the team's timeout entries is
  unchanged by an accepted timeout call, by a reassignment in which the giving side is
  below \<^verbatim>\<open>timeoutsTotal\<close> and the receiving side has at least one timeout left, and by a
  deletion (\<^verbatim>\<open>handleDeleteScore\<close>, \<^verbatim>\<open>handleHalftimeDelete\<close>) whose removed entry is not a timeout
  entry of the team. No deletion changes a \<^verbatim>\<open>totalRemaining\<close>.
\<close>

theorem timeout_balance_conservation:
  "(fst (handleTimeout st clk t) = TimeoutRecorded \<longrightarrow>
      timeoutSum (snd (handleTimeout st clk t)) u = timeoutSum st u)
   \<and> (reassignKeepsBalance st t \<longrightarrow>
      timeoutSum (handleTimeoutEditSave st clk (Some t)) u = timeoutSum st u)
   \<and> (\<not> removesTimeoutOf (scoreLogs st) (currentEditID st) u \<longrightarrow>
      timeoutSum (handleDeleteScore st clk) u = timeoutSum st u)
   \<and> (\<not> removesTimeoutOf (scoreLogs st) (currentHalftimeEditID st) u \<longrightarrow>
      timeoutSum (handleHalftimeDelete st clk) u = timeoutSum st u)
   \<and> totalRemaining (tsGet (timeoutState (handleDeleteScore st clk)) u) =
       totalRemaining (tsGet (timeoutState st) u)
   \<and> totalRemaining (tsGet (timeoutState (handleHalftimeDelete st clk)) u) =
       totalRemaining (tsGet (timeoutState st) u)"
  by (simp add: handleTimeout_sum reassign_sum delete_sum halftimeDelete_sum delete_totals)

theorem timeout_balance_conservation_witness:
  "fst (handleTimeout kickoffState (clockAt 2000) TeamA) = TimeoutRecorded
   \<and> timeoutSum (snd (handleTimeout kickoffState (clockAt 2000) TeamA)) TeamA
       = timeoutSum kickoffState TeamA
   \<and> reassignKeepsBalance oneTimeoutOpen TeamB
   \<and> timeoutSum (handleTimeoutEditSave oneTimeoutOpen (clockAt 3000) (Some TeamB)) TeamA
       = timeoutSum oneTimeoutOpen TeamA
   \<and> timeoutSum (handleTimeoutEditSave oneTimeoutOpen (clockAt 3000) (Some TeamB)) TeamB
       = timeoutSum oneTimeoutOpen TeamB
   \<and> \<not> removesTimeoutOf (scoreLogs pointAfterTimeout) (currentEditID pointAfterTimeout) TeamA
   \<and> map Type (scoreLogs pointAfterTimeout) = [matchstart, timeout, score]
   \<and> map Type (scoreLogs (handleDeleteScore pointAfterTimeout (clockAt 7000))) = [matchstart, timeout]
   \<and> timeoutSum (handleDeleteScore pointAfterTimeout (clockAt 7000)) TeamA
       = timeoutSum pointAfterTimeout TeamA
   \<and> \<not> removesTimeoutOf (scoreLogs halftimeAfterTimeout)
         (currentHalftimeEditID halftimeAfterTimeout) TeamA
   \<and> map Type (scoreLogs halftimeAfterTimeout) = [matchstart, timeout, halftime]
   \<and> map Type (scoreLogs (handleHalftimeDelete halftimeAfterTimeout (clockAt 7000)))
       = [matchstart, timeout]
   \<and> timeoutSum (handleHalftimeDelete halftimeAfterTimeout (clockAt 7000)) TeamA
       = timeoutSum halftimeAfterTimeout TeamA"
  using timeout_balance_conservation [of kickoffState "clockAt 2000" TeamA TeamA]
        timeout_balance_conservation [of oneTimeoutOpen "clockAt 3000" TeamB TeamA]
        timeout_balance_conservation [of oneTimeoutOpen "clockAt 3000" TeamB TeamB]
        timeout_balance_conservation [of pointAfterTimeout "clockAt 7000" TeamA TeamA]
        timeout_balance_conservation [of halftimeAfterTimeout "clockAt 7000" TeamA TeamA]
        kickoffState_timeout oneTimeoutOpen_reassignable
        pointAfterTimeout_eval halftimeAfterTimeout_eval
  by blast

text \<open>
  The claim as stated fails twice. On a reassignment to a side with no timeout left:
  team A has used both its timeouts, team B one; reassigning B's timeout to A leaves A's
  balance at 0 (the debit is clamped) while A now has three timeout entries. And on the
  deletion of a timeout entry: the entry of team B's timeout is removed through the score
  popup, team B's \<^verbatim>\<open>totalRemaining\<close> stays at 1, and its sum falls from 2 to 1.
\<close>

theorem timeout_balance_counterexample:
  "timeoutSum threeTimeouts TeamA = 2
   \<and> timeoutSum (step threeTimeouts (SaveTimeoutEdit (clockAt 5000) (Some TeamA))) TeamA = 3
   \<and> map Type (scoreLogs timeoutUnderScoreId) = [matchstart, timeout, score]
   \<and> timeoutSum timeoutUnderScoreId TeamB = 2
   \<and> map Type (scoreLogs (step timeoutUnderScoreId (DeleteScore (clockAt 3000))))
       = [matchstart, score]
   \<and> totalRemaining (tsGet (timeoutState timeoutUnderScoreId) TeamB) = 1
   \<and> totalRemaining (tsGet (timeoutState (step timeoutUnderScoreId (DeleteScore (clockAt 3000)))) TeamB)
       = 1
   \<and> timeoutSum (step timeoutUnderScoreId (DeleteScore (clockAt 3000))) TeamB = 1"
proof -
  have "timeoutSum threeTimeouts TeamA = 2
   \<and> timeoutSum (step threeTimeouts (SaveTimeoutEdit (clockAt 5000) (Some TeamA))) TeamA = 3"
    unfolding threeTimeouts_state
    by (simp add: threeTimeoutsState_def base_defs reassign_defs timeoutSum_def)
  moreover have
    "map Type (scoreLogs timeoutUnderScoreId) = [matchstart, timeout, score]
     \<and> timeoutSum timeoutUnderScoreId TeamB = 2
     \<and> map Type (scoreLogs (step timeoutUnderScoreId (DeleteScore (clockAt 3000)))) = [matchstart, score]
     \<and> totalRemaining (tsGet (timeoutState timeoutUnderScoreId) TeamB) = 1
     \<and> totalRemaining (tsGet (timeoutState (step timeoutUnderScoreId (DeleteScore (clockAt 3000)))) TeamB)
        = 1
     \<and> timeoutSum (step timeoutUnderScoreId (DeleteScore (clockAt 3000))) TeamB = 1"
    unfolding timeoutUnderScoreId_state timeoutUnderScoreId_deleted
    by (simp add: timeoutUnderScoreIdState_def scoreEntry_def base_defs timeoutSum_def)
  ultimately show ?thesis by simp
qed

subsection \<open>The bounds of the timeout balance\<close>

text \<open>
  Every handler keeps the invariant: filling the balance (\<^verbatim>\<open>initializeTimeoutState\<close>), calling
  a timeout and the halftime reset keep each balance within its bounds, and so does the
  reassignment of a timeout when the total allotment is positive.
\<close>

lemma timeoutInv_cong:
  "timeoutInv st \<Longrightarrow> gameSettings st' = gameSettings st \<Longrightarrow>
   timeoutState st' = timeoutState st \<Longrightarrow> timeoutInv st'"
  by (simp add: timeoutInv_def withinBounds_def usesPerHalfTimeouts_def)

text \<open>Filling and refilling the balance.\<close>

lemma createState_bounds:
  "0 \<le> timeoutsTotal (gameSettings st) \<Longrightarrow>
   0 \<le> totalRemaining (createState st src)
   \<and> totalRemaining (createState st src) \<le> timeoutsTotal (gameSettings st)
   \<and> (usesPerHalfTimeouts st \<longrightarrow>
        0 \<le> halfRemaining (createState st src)
        \<and> halfRemaining (createState st src) \<le> timeoutsPerHalf (gameSettings st))"
  by (auto simp: createState_def clampCount_def usesPerHalfTimeouts_def Let_def
        split: option.splits)

lemma initializeTimeoutState_bounds:
  "0 \<le> timeoutsTotal (gameSettings st) \<Longrightarrow> withinBounds (initializeTimeoutState st saved) t"
  using createState_bounds [of st "map_option savedA saved"]
        createState_bounds [of st "map_option savedB saved"]
  by (cases t) (simp_all add: withinBounds_def initializeTimeoutState_def usesPerHalfTimeouts_def)

lemma initializeTimeoutState_timeoutInv:
  "0 \<le> timeoutsPerHalf (gameSettings st) \<Longrightarrow>
   timeoutsPerHalf (gameSettings st) \<le> timeoutsTotal (gameSettings st) \<Longrightarrow>
   timeoutInv (initializeTimeoutState st saved)"
  using initializeTimeoutState_bounds [of st saved TeamA]
        initializeTimeoutState_bounds [of st saved TeamB]
  by (simp add: timeoutInv_def) (simp add: initializeTimeoutState_def)

lemma halftimeReset_bounds:
  "0 \<le> timeoutsTotal (gameSettings st) \<Longrightarrow> 0 \<le> totalRemaining ts \<Longrightarrow>
   totalRemaining (halftimeReset st ts) = totalRemaining ts
   \<and> (usesPerHalfTimeouts st \<longrightarrow>
        0 \<le> halfRemaining (halftimeReset st ts)
        \<and> halfRemaining (halftimeReset st ts) \<le> timeoutsPerHalf (gameSettings st))"
  by (auto simp: halftimeReset_def usesPerHalfTimeouts_def Let_def)

lemma handleHalftime_bounds:
  assumes "0 \<le> timeoutsTotal (gameSettings st)" "withinBounds st u"
  shows "withinBounds (snd (handleHalftime st clk r)) u"
proof (cases "\<not> halftimeTriggered st \<and> matchStarted st")
  case True
  have per: "usesPerHalfTimeouts (snd (handleHalftime st clk r)) = usesPerHalfTimeouts st"
    by (simp add: usesPerHalfTimeouts_def)
  from True have ts: "timeoutState (snd (handleHalftime st clk r)) =
     \<lparr> tsA = halftimeReset st (tsA (timeoutState st)),
       tsB = halftimeReset st (tsB (timeoutState st)) \<rparr>"
    using handleHalftime_timeouts [of st clk r] by simp
  from assms halftimeReset_bounds [of st "tsA (timeoutState st)"]
    halftimeReset_bounds [of st "tsB (timeoutState st)"]
  show ?thesis
    by (cases u) (simp_all add: withinBounds_def per ts tsGet_def)
next
  case False
  then have "snd (handleHalftime st clk r) = st"
    by (auto simp: handleHalftime_def)
  with assms show ?thesis by simp
qed

lemma handleHalftime_timeoutInv:
  "timeoutInv st \<Longrightarrow> timeoutInv (snd (handleHalftime st clk r))"
  using handleHalftime_bounds [of st TeamA clk r] handleHalftime_bounds [of st TeamB clk r]
  by (auto simp: timeoutInv_def)

lemma maybeTriggerHalftimeByScore_timeoutInv:
  "timeoutInv st \<Longrightarrow> timeoutInv (maybeTriggerHalftimeByScore st clk)"
proof -
  assume i: "timeoutInv st"
  have s: "timeoutInv (st\<lparr>halftimeAutoSuppressed := False\<rparr>)"
    using i by (rule timeoutInv_cong) simp_all
  show ?thesis
    using i s handleHalftime_timeoutInv [of st clk "''score''"]
      handleHalftime_timeoutInv [of "st\<lparr>halftimeAutoSuppressed := False\<rparr>" clk "''score''"]
    by (simp add: maybeTriggerHalftimeByScore_def Let_def)
qed

lemma attemptPendingHalftime_timeoutInv:
  "timeoutInv st \<Longrightarrow> timeoutInv (attemptPendingHalftime st clk)"
proof -
  assume i: "timeoutInv st"
  have "timeoutInv (snd (handleHalftime st clk r))" for r
    using i by (rule handleHalftime_timeoutInv)
  moreover have "timeoutInv s \<Longrightarrow> timeoutInv (s\<lparr>halftimePendingReason := x\<rparr>)" for s x
    by (erule timeoutInv_cong) simp_all
  ultimately show ?thesis
    using i by (simp add: attemptPendingHalftime_def Let_def split: prod.splits)
       (metis snd_conv)
qed

lemma rebuild_timeoutInv:
  "timeoutInv st \<Longrightarrow> timeoutInv (rebuildTableAndCounters st clk)"
  unfolding rebuildTableAndCounters_def Let_def
  by (rule maybeTriggerHalftimeByScore_timeoutInv) (erule timeoutInv_cong; simp)

lemma addNewScore_timeoutInv:
  assumes "timeoutInv st"
  shows "timeoutInv (addNewScore st clk clkH t scorer assist)"
proof -
  define s2 where "s2 = checkForScoreCap
     ((if t = TeamA then st\<lparr>teamAScore := teamAScore st + 1\<rparr>
       else st\<lparr>teamBScore := teamBScore st + 1\<rparr>)
      \<lparr>scoreLogs := scoreLogs st @
         [createLogObject (if t = TeamA then st\<lparr>teamAScore := teamAScore st + 1\<rparr>
                           else st\<lparr>teamBScore := teamBScore st + 1\<rparr>)
            clk (DateNow clk) (Some t) scorer assist noOverrides]\<rparr>)"
  have "timeoutInv s2"
    using assms unfolding s2_def by (rule timeoutInv_cong) simp_all
  then have "timeoutInv (attemptPendingHalftime (maybeTriggerHalftimeByScore s2 clkH) clkH)"
    by (intro attemptPendingHalftime_timeoutInv maybeTriggerHalftimeByScore_timeoutInv)
  then have "timeoutInv (closePopup (attemptPendingHalftime (maybeTriggerHalftimeByScore s2 clkH) clkH))"
    unfolding closePopup_def by (rule timeoutInv_cong) simp_all
  moreover have "addNewScore st clk clkH t scorer assist =
      closePopup (attemptPendingHalftime (maybeTriggerHalftimeByScore s2 clkH) clkH)"
    by (simp add: addNewScore_def Let_def s2_def)
  ultimately show ?thesis by simp
qed

lemma updateExistingScore_timeoutInv:
  "timeoutInv st \<Longrightarrow> timeoutInv (updateExistingScore st scorer assist)"
  by (auto simp: updateExistingScore_def closePopup_def split: option.splits
      elim!: timeoutInv_cong)

lemma handleSaveScore_timeoutInv:
  "timeoutInv st \<Longrightarrow> timeoutInv (handleSaveScore st clk clkH scorer assist)"
  by (simp add: handleSaveScore_def addNewScore_timeoutInv updateExistingScore_timeoutInv split: option.splits)

lemma handleDeleteScore_timeoutInv:
  "timeoutInv st \<Longrightarrow> timeoutInv (handleDeleteScore st clkH)"
proof -
  assume i: "timeoutInv st"
  have "timeoutInv (closePopup (rebuildTableAndCounters (st\<lparr>scoreLogs := logs\<rparr>) clkH))" for logs
    unfolding closePopup_def
    by (rule timeoutInv_cong [OF rebuild_timeoutInv [OF timeoutInv_cong [OF i]]]) simp_all
  with i show ?thesis
    by (simp add: handleDeleteScore_def split: option.splits)
qed

text \<open>Calling a timeout, and reassigning one when the total allotment is positive.\<close>

lemma handleTimeout_bounds:
  "withinBounds st u \<Longrightarrow> withinBounds (snd (handleTimeout st clk t)) u"
  by (cases t; cases u)
     (auto simp: withinBounds_def handleTimeout_def Let_def
        usesPerHalfTimeouts_def tsGet_def tsSet_def)

lemma handleTimeout_timeoutInv:
  "timeoutInv st \<Longrightarrow> timeoutInv (snd (handleTimeout st clk t))"
  using handleTimeout_bounds [of st TeamA clk t] handleTimeout_bounds [of st TeamB clk t]
  by (auto simp: timeoutInv_def)

lemma adjustTeam_bounds:
  "0 < timeoutsTotal (gameSettings st) \<Longrightarrow>
   0 \<le> totalRemaining (adjustTeam st d ts)
   \<and> totalRemaining (adjustTeam st d ts) \<le> timeoutsTotal (gameSettings st)
   \<and> (usesPerHalfTimeouts st \<longrightarrow>
        0 \<le> halfRemaining (adjustTeam st d ts)
        \<and> halfRemaining (adjustTeam st d ts) \<le> timeoutsPerHalf (gameSettings st))"
  by (auto simp: adjustTeam_def normalize_def usesPerHalfTimeouts_def Let_def)

lemma withinBounds_tsSet:
  "withinBounds (st\<lparr>timeoutState := tsSet (timeoutState st) t ts\<rparr>) u =
     (if u = t
      then 0 \<le> totalRemaining ts \<and> totalRemaining ts \<le> timeoutsTotal (gameSettings st)
           \<and> (\<not> usesPerHalfTimeouts st
               \<or> (0 \<le> halfRemaining ts \<and> halfRemaining ts \<le> timeoutsPerHalf (gameSettings st)))
      else withinBounds st u)"
  by (cases t; cases u) (simp_all add: withinBounds_def usesPerHalfTimeouts_def tsGet_def tsSet_def)

lemma adjust_bounds:
  assumes "0 < timeoutsTotal (gameSettings st)" "withinBounds st u"
  shows "withinBounds (adjustTimeoutCountsForEdit st a b) u"
proof -
  have one: "withinBounds (s\<lparr>timeoutState := tsSet (timeoutState s) t (adjustTeam s d ts)\<rparr>) u"
    if "gameSettings s = gameSettings st" "withinBounds s u" for s t d ts
    using that assms(1) adjustTeam_bounds [of s d ts]
    by (simp add: withinBounds_tsSet)
  define s1 where "s1 = (case a of None \<Rightarrow> st
     | Some t \<Rightarrow> st\<lparr>timeoutState :=
         tsSet (timeoutState st) t (adjustTeam st 1 (tsGet (timeoutState st) t))\<rparr>)"
  have g1: "gameSettings s1 = gameSettings st"
    by (simp add: s1_def split: option.splits)
  have w1: "withinBounds s1 u"
    using assms(2) one [of st] by (simp add: s1_def split: option.splits)
  have "withinBounds (case b of None \<Rightarrow> s1
     | Some t \<Rightarrow> s1\<lparr>timeoutState :=
         tsSet (timeoutState s1) t (adjustTeam s1 (- 1) (tsGet (timeoutState s1) t))\<rparr>) u"
    using w1 one [OF g1 w1] by (simp split: option.splits)
  then show ?thesis
    unfolding adjustTimeoutCountsForEdit_def Let_def s1_def .
qed

lemma adjust_timeoutInv:
  "timeoutInv st \<Longrightarrow> timeoutInv (adjustTimeoutCountsForEdit st a b)"
  using adjust_bounds [of st TeamA a b] adjust_bounds [of st TeamB a b]
  by (auto simp: timeoutInv_def)

lemma handleTimeoutEditSave_timeoutInv:
  assumes "timeoutInv st"
  shows "timeoutInv (handleTimeoutEditSave st clkH letter)"
proof -
  have a: "timeoutInv (rebuildTableAndCounters (closeTimeoutEditPopup s) clkH)"
    if "timeoutInv s" for s
    unfolding closeTimeoutEditPopup_def
    by (rule rebuild_timeoutInv) (rule timeoutInv_cong [OF that]; simp)
  have b: "timeoutInv (st\<lparr>scoreLogs := logs\<rparr>)" for logs
    using assms by (rule timeoutInv_cong) simp_all
  show ?thesis
    using assms a [OF b] a [OF adjust_timeoutInv [OF b]]
    by (simp add: handleTimeoutEditSave_def Let_def split: option.splits)
qed

lemma handleHalftimeDelete_timeoutInv:
  assumes "timeoutInv st"
  shows "timeoutInv (handleHalftimeDelete st clkH)"
proof -
  have "timeoutInv (rebuildTableAndCounters (closeHalftimeEditPopup s) clkH)"
    if "gameSettings s = gameSettings st" "timeoutState s = timeoutState st" for s
    unfolding closeHalftimeEditPopup_def
    by (rule rebuild_timeoutInv) (rule timeoutInv_cong [OF assms]; simp add: that)
  with assms show ?thesis
    by (simp add: handleHalftimeDelete_def Let_def split: option.splits)
qed

lemma startMatch_timeoutInv:
  "timeoutInv st \<Longrightarrow> timeoutInv (startMatch st clk ms)"
  by (simp add: startMatch_def Let_def handleMainTimerTick_def)
     (auto elim!: timeoutInv_cong)

lemma handleStoppageToggle_timeoutInv:
  "timeoutInv st \<Longrightarrow> timeoutInv (handleStoppageToggle st clk tick)"
  by (auto simp: handleStoppageToggle_def Let_def handleMainTimerTick_def split: option.splits
      elim!: timeoutInv_cong)

text \<open>
  The setup form keeps the per-half allotment within the total allotment, both from 0
  to 10, and refills the balance.
\<close>

lemma handleSetupSave_timeoutInv:
  assumes "timeoutInv st"
  shows "timeoutInv (handleSetupSave st form clkH ms)"
proof -
  define T where "T = clampNumber (setupTimeoutsTotal form) (timeoutsTotal (gameSettings st)) 0 10"
  define P where "P = min (clampNumber (setupTimeoutsPerHalf form)
                             (timeoutsPerHalf (gameSettings st)) 0 10) T"
  define s2 where "s2 = initializeTimeoutState (st\<lparr>gameSettings :=
      \<lparr> matchDuration = clampNumber (setupMatchDuration form) (matchDuration (gameSettings st)) 1 300,
        halftimeDuration = clampNumber (setupHalftime form) (halftimeDuration (gameSettings st)) 1
          (clampNumber (setupMatchDuration form) (matchDuration (gameSettings st)) 1 300),
        halftimeBreakDuration =
          clampNumber (setupHalftimeDuration form) (halftimeBreakDuration (gameSettings st)) 1 120,
        timeoutDuration =
          clampNumber (setupTimeoutDuration form) (timeoutDuration (gameSettings st)) 1 3600,
        timeoutsTotal = T, timeoutsPerHalf = P \<rparr>\<rparr>) None"
  from assms have "0 \<le> P" "P \<le> T"
    by (auto simp: P_def T_def clampNumber_def timeoutInv_def split: option.splits)
  then have "timeoutInv s2"
    unfolding s2_def by (intro initializeTimeoutState_timeoutInv) simp_all
  then have "timeoutInv (handleAbbaChange s2 x)" for x
    unfolding handleAbbaChange_def by (rule timeoutInv_cong) simp_all
  then have "timeoutInv (maybeTriggerHalftimeByScore (handleAbbaChange s2 x) clkH)" for x
    by (rule maybeTriggerHalftimeByScore_timeoutInv)
  then have "timeoutInv (maybeTriggerHalftimeByTime
      (maybeTriggerHalftimeByScore (handleAbbaChange s2 x) clkH) ms)" for x
    by (rule timeoutInv_cong) simp_all
  then show ?thesis
    by (simp add: handleSetupSave_def Let_def T_def P_def s2_def)
qed

lemma handleSubmitScore_timeoutInv:
  assumes "timeoutInv st"
  shows "timeoutInv (snd (handleSubmitScore st clkH))"
proof (cases "scoreLogs st = []")
  case True
  with assms show ?thesis by (simp add: handleSubmitScore_def)
next
  case False
  define R where "R = (rebuildTableAndCounters (st\<lparr>scoreLogs := []\<rparr>) clkH)
     \<lparr>currentEditID := None, currentHalftimeEditID := None,
       halftimeTriggered := False, halftimePendingReason := None,
       halftimeAutoSuppressed := False, halftimeReasonResolved := None\<rparr>"
  have r: "timeoutInv (rebuildTableAndCounters (st\<lparr>scoreLogs := []\<rparr>) clkH)"
    by (rule rebuild_timeoutInv) (rule timeoutInv_cong [OF assms]; simp)
  have g: "gameSettings R = gameSettings (rebuildTableAndCounters (st\<lparr>scoreLogs := []\<rparr>) clkH)"
    by (simp add: R_def)
  have "timeoutInv (initializeTimeoutState R None)"
    using r by (intro initializeTimeoutState_timeoutInv) (simp_all add: g timeoutInv_def)
  then have "timeoutInv ((initializeTimeoutState R None)\<lparr>matchStarted := False,
      gameStoppageActive := False, hardCapReached := False\<rparr>)"
    by (rule timeoutInv_cong) simp_all
  with False show ?thesis
    by (simp add: handleSubmitScore_def Let_def R_def)
qed

lemma simple_timeoutInv:
  "timeoutInv st \<Longrightarrow> timeoutInv (selectTeam st t name)"
  "timeoutInv st \<Longrightarrow> timeoutInv (openPopup st t)"
  "timeoutInv st \<Longrightarrow> timeoutInv (closePopup st)"
  "timeoutInv st \<Longrightarrow> timeoutInv (editScore st sid)"
  "timeoutInv st \<Longrightarrow> timeoutInv (openTimeoutEditPopup st sid)"
  "timeoutInv st \<Longrightarrow> timeoutInv (closeTimeoutEditPopup st)"
  "timeoutInv st \<Longrightarrow> timeoutInv (openHalftimeEditPopup st sid)"
  "timeoutInv st \<Longrightarrow> timeoutInv (closeHalftimeEditPopup st)"
  "timeoutInv st \<Longrightarrow> timeoutInv (handleMainTimerTick st ms)"
  by (auto simp: selectTeam_def openPopup_def closePopup_def editScore_def
      openTimeoutEditPopup_def closeTimeoutEditPopup_def openHalftimeEditPopup_def
      closeHalftimeEditPopup_def handleMainTimerTick_def split: option.splits team.splits
      elim!: timeoutInv_cong)

lemma step_timeoutInv: "timeoutInv st \<Longrightarrow> timeoutInv (step st a)"
  by (cases a)
     (simp_all add: handleSaveScore_timeoutInv handleDeleteScore_timeoutInv handleTimeout_timeoutInv
       handleTimeoutEditSave_timeoutInv handleHalftimeDelete_timeoutInv handleHalftime_timeoutInv startMatch_timeoutInv
       handleStoppageToggle_timeoutInv handleSetupSave_timeoutInv handleSubmitScore_timeoutInv simple_timeoutInv)

lemma run_timeoutInv: "timeoutInv st \<Longrightarrow> timeoutInv (run st acts)"
  unfolding run_def by (induction acts arbitrary: st) (simp_all add: step_timeoutInv)

lemma initial_timeoutInv: "timeoutInv initialApp"
  by (simp add: timeoutInv_def withinBounds_def initialApp_def defaultSettings_def
      usesPerHalfTimeouts_def tsGet_def)

text \<open>
  In every state the operator can reach, the per-half allotment lies within the total
  allotment, and while the total allotment is not 0 each side's balance lies within its
  bounds.
\<close>

lemma reachable_bounds:
  "0 \<le> timeoutsPerHalf (gameSettings (run initialApp acts))
   \<and> timeoutsPerHalf (gameSettings (run initialApp acts))
       \<le> timeoutsTotal (gameSettings (run initialApp acts))
   \<and> (timeoutsTotal (gameSettings (run initialApp acts)) \<noteq> 0 \<longrightarrow>
        withinBounds (run initialApp acts) t)"
  using run_timeoutInv [OF initial_timeoutInv, of acts]
  by (cases t) (auto simp: timeoutInv_def)

lemma zeroSetup_reached:
  "run kickoffState
     [TimeoutButton (clockAt 2000) TeamA, SaveSetup zeroTimeouts (clockAt 2500) 5400000,
      TimeoutGear 2000] = zeroSetupState"
  by (simp add: zeroSetupState_def zeroTimeouts_def base_defs timeout_defs setup_defs
      maybeTriggerHalftimeByTime_def truthy_def HALFTIME_SCORE_TARGET_def)

lemma zeroSetup_reassigned:
  "step zeroSetupState (SaveTimeoutEdit (clockAt 3000) (Some TeamB)) = reassignedUnderZeroState"
  apply (simp add: zeroSetupState_def reassignedUnderZeroState_def base_defs reassign_defs)
  apply (simp add: rebuildTableAndCounters_def Let_def countLog_def isScoreLog_def getLogType_def)
  apply (simp add: checkForScoreCap_def Let_def)
  apply (simp add: updateHalftimeTracking_def Let_def)
  apply (simp add: maybeTriggerHalftimeByScore_def truthy_def HALFTIME_SCORE_TARGET_def Let_def)
  done

lemma reassignedUnderZero_state: "reassignedUnderZero = reassignedUnderZeroState"
proof -
  have "reassignedUnderZero =
      step (run kickoffState
              [TimeoutButton (clockAt 2000) TeamA, SaveSetup zeroTimeouts (clockAt 2500) 5400000,
               TimeoutGear 2000])
           (SaveTimeoutEdit (clockAt 3000) (Some TeamB))"
    unfolding reassignedUnderZero_def run_append run_kickoff by (simp only: run_Cons run_Nil)
  then show ?thesis by (simp only: zeroSetup_reached zeroSetup_reassigned)
qed

text \<open>
  C10 at a failing input. With \<^verbatim>\<open>timeoutsTotal\<close> saved as 0 after a timeout was logged,
  reassigning that timeout gives the side that loses it a \<^verbatim>\<open>totalRemaining\<close> of 1, above
  \<^verbatim>\<open>timeoutsTotal\<close>: \<^verbatim>\<open>normalize\<close> treats a maximum of 0 as no bound, where \<^verbatim>\<open>clampCount\<close> of
  \<^verbatim>\<open>initializeTimeoutState\<close> caps at 0. The side can then call a timeout that the setup does
  not allow. This is the one way out of the bounds: by \<open>reachable_bounds\<close> they hold in
  every reachable state whose \<^verbatim>\<open>timeoutsTotal\<close> is not 0.
\<close>

theorem balance_above_total:
  "timeoutsTotal (gameSettings reassignedUnderZero) = 0
   \<and> totalRemaining (tsGet (timeoutState reassignedUnderZero) TeamA) = 1
   \<and> fst (handleTimeout reassignedUnderZero (clockAt 4000) TeamA) = TimeoutRecorded"
  unfolding reassignedUnderZero_state
  by (simp add: reassignedUnderZeroState_def base_defs handleTimeout_def usesPerHalfTimeouts_def
      Let_def)

subsection \<open>The exported rows\<close>

lemma createLogObject_wellLabelled:
  "oEventType ov = None \<or> oEventType ov = Some (getEventTypeLabel (orElse (oType ov) score)) \<Longrightarrow>
   wellLabelled (createLogObject st clk sid letter scorer assist ov)"
  by (auto simp: wellLabelled_def createLogObject_def Let_def orElse_def)

lemma recordSpecialEvent_labelled [simp]:
  "logsLabelled (snd (recordSpecialEvent st clk ty letter ex)) = logsLabelled st"
  by (simp add: recordSpecialEvent_def Let_def createLogObject_wellLabelled orElse_def)

lemma handleHalftime_labelled [simp]:
  "logsLabelled (snd (handleHalftime st clk r)) = logsLabelled st"
  unfolding handleHalftime_def Let_def
  by (simp split: prod.splits add: recordSpecialEvent_def Let_def
      createLogObject_wellLabelled orElse_def)

lemma maybeTriggerHalftimeByScore_labelled [simp]:
  "logsLabelled (maybeTriggerHalftimeByScore st clk) = logsLabelled st"
  by (simp add: maybeTriggerHalftimeByScore_def Let_def)


lemma attemptPendingHalftime_labelled [simp]:
  "logsLabelled (attemptPendingHalftime st clk) = logsLabelled st"
proof -
  have h: "logsLabelled (snd (handleHalftime st clk r)) = logsLabelled st" for r by simp
  show ?thesis
    unfolding attemptPendingHalftime_def Let_def
    by (simp split: prod.splits) (metis h snd_conv)
qed

lemma small_labelled [simp]:
  "logsLabelled (checkForScoreCap st) = logsLabelled st"
  "logsLabelled (updateHalftimeTracking st) = logsLabelled st"
  "logsLabelled (maybeTriggerHalftimeByTime st ms) = logsLabelled st"
  "logsLabelled (closePopup st) = logsLabelled st"
  "logsLabelled (adjustTimeoutCountsForEdit st a b) = logsLabelled st"
  "logsLabelled (initializeTimeoutState st saved) = logsLabelled st"
  "logsLabelled (handleAbbaChange st v) = logsLabelled st"
  by (simp_all add: closePopup_def initializeTimeoutState_def handleAbbaChange_def)

lemma rebuild_labelled [simp]:
  "logsLabelled (rebuildTableAndCounters st clk) = logsLabelled st"
  by (simp add: rebuildTableAndCounters_def Let_def)

lemma updateScoreLog_all:
  "updateScoreLog logs i f = Some logs' \<Longrightarrow> (\<And>l. P l \<Longrightarrow> P (f l)) \<Longrightarrow>
   list_all P logs \<Longrightarrow> list_all P logs'"
  by (induction logs arbitrary: logs') (auto split: if_splits option.splits)

lemma removeScoreLog_all:
  "removeScoreLog logs i = Some (r, logs') \<Longrightarrow> list_all P logs \<Longrightarrow> list_all P logs'"
  by (induction logs arbitrary: logs') (auto split: if_splits option.splits)

lemma addNewScore_labelled:
  "logsLabelled st \<Longrightarrow> logsLabelled (addNewScore st clk clkH t scorer assist)"
  by (simp add: addNewScore_def Let_def)
     (simp add: createLogObject_wellLabelled noOverrides_def)

lemma updateExistingScore_labelled:
  "logsLabelled st \<Longrightarrow> logsLabelled (updateExistingScore st scorer assist)"
  by (auto simp: updateExistingScore_def closePopup_def wellLabelled_def
      split: option.splits elim!: updateScoreLog_all [rotated 2])

lemma handleSaveScore_labelled:
  "logsLabelled st \<Longrightarrow> logsLabelled (handleSaveScore st clk clkH scorer assist)"
  by (simp add: handleSaveScore_def addNewScore_labelled updateExistingScore_labelled
      split: option.splits)

lemma handleDeleteScore_labelled:
  "logsLabelled st \<Longrightarrow> logsLabelled (handleDeleteScore st clkH)"
  by (auto simp: handleDeleteScore_def split: option.splits)
     (auto simp: dest: removeScoreLog_all)

lemma handleHalftimeDelete_labelled:
  "logsLabelled st \<Longrightarrow> logsLabelled (handleHalftimeDelete st clkH)"
  by (auto simp: handleHalftimeDelete_def Let_def closeHalftimeEditPopup_def split: option.splits)
     (auto simp: dest: removeScoreLog_all)

lemma handleTimeout_labelled:
  "logsLabelled st \<Longrightarrow> logsLabelled (snd (handleTimeout st clk t))"
  by (auto simp: handleTimeout_def Let_def)

lemma handleTimeoutEditSave_labelled:
  "logsLabelled st \<Longrightarrow> logsLabelled (handleTimeoutEditSave st clkH letter)"
  by (auto simp: handleTimeoutEditSave_def Let_def closeTimeoutEditPopup_def split: option.splits)
     (auto simp: wellLabelled_def elim!: updateScoreLog_all [rotated 2])

lemma startMatch_labelled:
  "logsLabelled st \<Longrightarrow> logsLabelled (startMatch st clk ms)"
  by (auto simp: startMatch_def Let_def handleMainTimerTick_def)

lemma handleStoppageToggle_labelled:
  "logsLabelled st \<Longrightarrow> logsLabelled (handleStoppageToggle st clk tick)"
  by (auto simp: handleStoppageToggle_def Let_def handleMainTimerTick_def split: option.splits)

lemma handleSetupSave_labelled:
  "logsLabelled st \<Longrightarrow> logsLabelled (handleSetupSave st form clkH ms)"
  by (simp add: handleSetupSave_def Let_def)

lemma handleSubmitScore_labelled:
  "logsLabelled st \<Longrightarrow> logsLabelled (snd (handleSubmitScore st clkH))"
proof (cases "scoreLogs st = []")
  case True
  then show "logsLabelled st \<Longrightarrow> ?thesis" by (simp add: handleSubmitScore_def)
next
  case False
  have "logsLabelled (rebuildTableAndCounters (st\<lparr>scoreLogs := []\<rparr>) clkH)"
    by simp
  then have "logsLabelled (initializeTimeoutState
       ((rebuildTableAndCounters (st\<lparr>scoreLogs := []\<rparr>) clkH)
          \<lparr>currentEditID := None, currentHalftimeEditID := None,
            halftimeTriggered := False, halftimePendingReason := None,
            halftimeAutoSuppressed := False, halftimeReasonResolved := None\<rparr>) None)"
    by (simp add: initializeTimeoutState_def)
  then show ?thesis using False
    by (simp add: handleSubmitScore_def Let_def)
qed

lemma simple_labelled:
  "logsLabelled st \<Longrightarrow> logsLabelled (selectTeam st t name)"
  "logsLabelled st \<Longrightarrow> logsLabelled (openPopup st t)"
  "logsLabelled st \<Longrightarrow> logsLabelled (editScore st sid)"
  "logsLabelled st \<Longrightarrow> logsLabelled (openTimeoutEditPopup st sid)"
  "logsLabelled st \<Longrightarrow> logsLabelled (closeTimeoutEditPopup st)"
  "logsLabelled st \<Longrightarrow> logsLabelled (openHalftimeEditPopup st sid)"
  "logsLabelled st \<Longrightarrow> logsLabelled (closeHalftimeEditPopup st)"
  "logsLabelled st \<Longrightarrow> logsLabelled (handleMainTimerTick st ms)"
  by (simp_all add: selectTeam_def openPopup_def editScore_def
      openTimeoutEditPopup_def closeTimeoutEditPopup_def openHalftimeEditPopup_def
      closeHalftimeEditPopup_def handleMainTimerTick_def
      split: option.splits team.splits)

lemma step_labelled: "logsLabelled st \<Longrightarrow> logsLabelled (step st a)"
  by (cases a)
     (simp_all add: handleSaveScore_labelled handleDeleteScore_labelled handleTimeout_labelled
       handleTimeoutEditSave_labelled handleHalftimeDelete_labelled startMatch_labelled
       handleStoppageToggle_labelled handleSetupSave_labelled handleSubmitScore_labelled
       simple_labelled)

lemma run_labelled: "logsLabelled st \<Longrightarrow> logsLabelled (run st acts)"
  by (induction acts arbitrary: st) (simp_all add: step_labelled)

lemma initial_labelled: "logsLabelled initialApp"
  by (simp add: initialApp_def)

lemma csvRow_labelled:
  "wellLabelled e \<Longrightarrow>
   csvRow st e = [GameID e, Time e, getEventTypeLabel (Type e), Team e, Score e, Assist e]"
  by (cases "Type e") (simp_all add: csvRow_def wellLabelled_def Let_def)

lemma label_cases:
  "getEventTypeLabel ty =
     (case ty of score \<Rightarrow> ''Score'' | timeout \<Rightarrow> ''TimeOut'' | halftime \<Rightarrow> ''HalfTime''
      | stoppage \<Rightarrow> ''Stoppage'' | matchstart \<Rightarrow> ''Start'')"
  by (cases ty) simp_all

text \<open>
  C6, as the code has it. After every sequence of operator actions from a fresh match the
  rows built on Submit are the header GameID, Time, Event, Team, Score, Assist followed
  by one row for each entry of the log, in the order of the log; the Event column of a
  row is \<^verbatim>\<open>Score\<close> for a score entry and \<^verbatim>\<open>TimeOut\<close>, \<^verbatim>\<open>HalfTime\<close>, \<^verbatim>\<open>Stoppage\<close>, \<^verbatim>\<open>Start\<close> for the
  other kinds. The file is these rows, each through \<^verbatim>\<open>toCSVLine\<close>, joined by CR LF, and is
  produced when the log is not empty.
\<close>

theorem export_rows:
  "hd (csvRows (run initialApp acts)) = [''GameID'', ''Time'', ''Event'', ''Team'', ''Score'', ''Assist'']
   \<and> tl (csvRows (run initialApp acts)) =
       map (\<lambda>e. [GameID e, Time e,
                  (case Type e of score \<Rightarrow> ''Score'' | timeout \<Rightarrow> ''TimeOut''
                   | halftime \<Rightarrow> ''HalfTime'' | stoppage \<Rightarrow> ''Stoppage''
                   | matchstart \<Rightarrow> ''Start''),
                  Team e, Score e, Assist e])
         (scoreLogs (run initialApp acts))
   \<and> fst (handleSubmitScore (run initialApp acts) clk) =
       (if scoreLogs (run initialApp acts) = [] then None
        else Some (joinWith [CHR 0x0D, CHR 0x0A] (map toCSVLine (csvRows (run initialApp acts)))))"
proof -
  have "list_all wellLabelled (scoreLogs (run initialApp acts))"
    using run_labelled [OF initial_labelled, of acts] by simp
  then have "map (csvRow (run initialApp acts)) (scoreLogs (run initialApp acts)) =
       map (\<lambda>e. [GameID e, Time e, getEventTypeLabel (Type e), Team e, Score e, Assist e])
         (scoreLogs (run initialApp acts))"
    by (simp add: list_all_iff csvRow_labelled)
  then show ?thesis
    by (simp add: csvRows_def csvHeader_def handleSubmitScore_def csvText_def Let_def
        label_cases [symmetric])
qed


lemma firstPoint_state: "firstPoint = firstPointState"
  unfolding firstPoint_def run_append run_kickoff
  by (simp add: firstPointState_def base_defs point_defs)

text \<open>
  The claim as stated fails on the first score entry: its Event column holds \<^verbatim>\<open>Score\<close>,
  not the empty string.
\<close>

theorem export_event_column_counterexample:
  "map Type (scoreLogs firstPoint) = [matchstart, score]
   \<and> map (\<lambda>r. r ! 2) (csvRows firstPoint) = [''Event'', ''Start'', ''Score'']
   \<and> fst (handleSubmitScore firstPoint (clockAt 9000)) =
       Some (''GameID,Time,Event,Team,Score,Assist'' @ [CHR 0x0D, CHR 0x0A]
             @ ''Red vs Blue,12:00,Start,,,'' @ [CHR 0x0D, CHR 0x0A]
             @ ''Red vs Blue,12:00,Score,Red,Alice,Bob'')"
  unfolding firstPoint_state
  by (simp add: firstPointState_def base_defs csvRows_def csvHeader_def csvRow_def
      handleSubmitScore_def csvText_def toCSVLine_def csvField_def Let_def)

subsection \<open>Refusing the restore prompt\<close>

text \<open>
  Whatever the store held, the refusal leaves the application in its initial state and
  the stored aggregate in its default state; the cached roster and the primary clock are
  as the constructors loaded them.
\<close>

lemma refuseRestore_launch:
  "refuseRestore (launch stored roster clock) now =
     \<lparr> theApp = initialApp, gameState = freshGameState now, teamsData = roster,
       primaryClock = clock \<rparr>"
  by (simp add: refuseRestore_def launch_def resetGameState_def Let_def initialApp_def)

text \<open>
  The other way into a fresh match keeps the setup: after Submit the settings and the
  start value of the ABBA sequence are those of the match just exported.
\<close>

lemma handleHalftime_abbaStart:
  "abbaStart (snd (handleHalftime st clk r)) = abbaStart st"
  unfolding handleHalftime_def Let_def
  by (simp split: prod.splits add: recordSpecialEvent_def Let_def updateHalftimeTracking_def)

lemma rebuild_setup:
  "gameSettings (rebuildTableAndCounters st clk) = gameSettings st"
  "abbaStart (rebuildTableAndCounters st clk) = abbaStart st"
proof -
  define s3 where "s3 = updateHalftimeTracking (checkForScoreCap
      (st\<lparr>teamAScore := fst (fold (countLog st) (scoreLogs st) (0, 0)),
           teamBScore := snd (fold (countLog st) (scoreLogs st) (0, 0))\<rparr>))"
  have a: "abbaStart s3 = abbaStart st"
    by (simp add: s3_def updateHalftimeTracking_def checkForScoreCap_def Let_def
        split: option.splits)
  have g: "gameSettings s3 = gameSettings st"
    by (simp add: s3_def)
  have r: "rebuildTableAndCounters st clk = maybeTriggerHalftimeByScore s3 clk"
    by (simp add: rebuildTableAndCounters_def Let_def s3_def)
  show "gameSettings (rebuildTableAndCounters st clk) = gameSettings st"
    unfolding r using g by (simp add: maybeTriggerHalftimeByScore_def Let_def)
  show "abbaStart (rebuildTableAndCounters st clk) = abbaStart st"
    unfolding r using a
    by (simp add: maybeTriggerHalftimeByScore_def Let_def handleHalftime_abbaStart)
qed

lemma submit_keeps_setup:
  "gameSettings (snd (handleSubmitScore st clkH)) = gameSettings st"
  "abbaStart (snd (handleSubmitScore st clkH)) = abbaStart st"
  using rebuild_setup [of "st\<lparr>scoreLogs := []\<rparr>" clkH]
  by (simp_all add: handleSubmitScore_def Let_def initializeTimeoutState_def)

lemma storedCustomMatch_eval:
  "gsMatchDuration storedCustomMatch = Some 60" "gsHalftimeDuration storedCustomMatch = Some 60"
  "gsAbbaStart storedCustomMatch = ''F''" "gsTimestamp storedCustomMatch = 5000"
  by (simp_all add: storedCustomMatch_def autoSave_def Let_def lateHalftimeState_def
      kickoffState_def initialApp_def defaultSettings_def)

text \<open>
  C5 at a failing input. The store holds a match set up with 60 minutes, halftime after
  60 minutes and start value F, saved at 5000; the page is launched at 6000 and the
  operator refuses the restore. The setup is then the built-in default in the
  application and in the stored aggregate: 100 minutes, halftime after 55, start value
  M. The cached roster is as it was, and so is the primary clock, which is still
  running.
\<close>

theorem refusal_discards_setup:
  "snapshotIsRecent storedCustomMatch 6000
   \<and> gsMatchDuration storedCustomMatch = Some 60
   \<and> gsHalftimeDuration storedCustomMatch = Some 60
   \<and> gsAbbaStart storedCustomMatch = ''F''
   \<and> matchDuration (gameSettings (theApp
         (refuseRestore (launch storedCustomMatch cachedRoster runningClock) 6000))) = 100
   \<and> halftimeDuration (gameSettings (theApp
         (refuseRestore (launch storedCustomMatch cachedRoster runningClock) 6000))) = 55
   \<and> abbaStart (theApp
         (refuseRestore (launch storedCustomMatch cachedRoster runningClock) 6000)) = ''M''
   \<and> gsMatchDuration (gameState
         (refuseRestore (launch storedCustomMatch cachedRoster runningClock) 6000)) = Some 100
   \<and> gsHalftimeDuration (gameState
         (refuseRestore (launch storedCustomMatch cachedRoster runningClock) 6000)) = Some 55
   \<and> gsAbbaStart (gameState
         (refuseRestore (launch storedCustomMatch cachedRoster runningClock) 6000)) = ''M''
   \<and> teamsData (refuseRestore (launch storedCustomMatch cachedRoster runningClock) 6000)
       = cachedRoster
   \<and> isRunning (primaryClock
         (refuseRestore (launch storedCustomMatch cachedRoster runningClock) 6000))"
  by (simp add: refuseRestore_launch storedCustomMatch_eval snapshotIsRecent_def initialApp_def
      defaultSettings_def freshGameState_def runningClock_def)

end
